theory Spec2Isabelle
  imports Complex_Main "HOL-Library.Multiset" "HOL-Library.AList"
begin

section \<open>Offset Edges: the geometry engine of mesh_offset_edges.py\<close>

text \<open>
  Python floats are modelled as \<^typ>\<open>real\<close>: rounding, NaN and the epsilon comparison of
  mathutils are outside the model, with one exception: the single-precision value of pi
  that \<open>Vector.angle\<close> returns for opposite vectors is the constant \<open>M_PI_F\<close> below, which is
  not pi. Python objects with identity (BMVert, BMEdge, BMFace)
  are natural-number handles into the tables of a mesh record. Every exception the
  source can raise is a value of \<open>error\<close>, and a fallible function returns
  \<open>error + 'a\<close>.
\<close>

subsection \<open>Exceptions\<close>

datatype error =
  ValueError | KeyError | IndexError | AttributeError | TypeError | ZeroDivisionError

definition ebind :: "error + 'a \<Rightarrow> ('a \<Rightarrow> error + 'b) \<Rightarrow> error + 'b" where
  "ebind m f = (case m of Inl e \<Rightarrow> Inl e | Inr a \<Rightarrow> f a)"

subsection \<open>mathutils.Vector (three components)\<close>

datatype Vector = Vector (vx: real) (vy: real) (vz: real)

definition X_UP :: Vector where "X_UP = Vector 1 0 0"
definition Y_UP :: Vector where "Y_UP = Vector 0 1 0"
definition Z_UP :: Vector where "Z_UP = Vector 0 0 1"
definition ZERO_VEC :: Vector where "ZERO_VEC = Vector 0 0 0"

definition ANGLE_180 :: real where "ANGLE_180 = pi"

definition vadd :: "Vector \<Rightarrow> Vector \<Rightarrow> Vector" where
  "vadd a b = Vector (vx a + vx b) (vy a + vy b) (vz a + vz b)"

definition vsub :: "Vector \<Rightarrow> Vector \<Rightarrow> Vector" where
  "vsub a b = Vector (vx a - vx b) (vy a - vy b) (vz a - vz b)"

definition smul :: "real \<Rightarrow> Vector \<Rightarrow> Vector" where
  "smul k a = Vector (k * vx a) (k * vy a) (k * vz a)"

definition vneg :: "Vector \<Rightarrow> Vector" where
  "vneg a = Vector (- vx a) (- vy a) (- vz a)"

definition dot :: "Vector \<Rightarrow> Vector \<Rightarrow> real" where
  "dot a b = vx a * vx b + vy a * vy b + vz a * vz b"

definition cross :: "Vector \<Rightarrow> Vector \<Rightarrow> Vector" where
  "cross a b = Vector (vy a * vz b - vz a * vy b)
                      (vz a * vx b - vx a * vz b)
                      (vx a * vy b - vy a * vx b)"

definition vec_length :: "Vector \<Rightarrow> real" where
  "vec_length a = sqrt (dot a a)"

text \<open>\<open>Vector.normalize()\<close> / \<open>normalized()\<close>: a vector of length zero stays zero.\<close>

definition normalized :: "Vector \<Rightarrow> Vector" where
  "normalized a = (if dot a a > 0 then smul (1 / vec_length a) a else ZERO_VEC)"

text \<open>
  \<open>a.project(b)\<close> is \<open>(a.b / b.b) * b\<close>. For \<open>b\<close> zero the C code divides by zero and
  yields NaN components; here HOL's \<open>x / 0 = 0\<close> gives the zero vector instead.
\<close>

definition project :: "Vector \<Rightarrow> Vector \<Rightarrow> Vector" where
  "project a b = smul (dot a b / dot b b) b"

text \<open>
  \<open>(float)M_PI\<close>: pi rounded to single precision, the float with the bits 0x40490FDB. Its
  value is 3.1415927410125732..., above pi.
\<close>

definition M_PI_F :: real where "M_PI_F = 13176795 / 4194304"

text \<open>
  The clamped arc cosine \<open>saacos\<close> that \<open>Vector.angle\<close> uses. It is a single-precision
  function: at and below -1 it returns \<open>(float)M_PI\<close>, at and above 1 it returns 0. In
  between, the rounding of \<open>acosf\<close> is left out and the result is the real arc cosine.
\<close>

definition saacos :: "real \<Rightarrow> real" where
  "saacos t = (if t \<le> -1 then M_PI_F else if t \<ge> 1 then 0 else arccos t)"

text \<open>
  \<open>a.angle(b)\<close> without a fallback raises ValueError when either vector has length
  zero.
\<close>

definition angle :: "Vector \<Rightarrow> Vector \<Rightarrow> error + real" where
  "angle a b =
     (if dot a a = 0 \<or> dot b b = 0 then Inl ValueError
      else Inr (saacos (dot a b / (sqrt (dot a a) * sqrt (dot b b)))))"

subsection \<open>Corner classification and tangent\<close>

datatype corner = FOLDING | STRAIGHT | CONVEX | CONCAVE

definition get_corner_type :: "Vector \<Rightarrow> Vector \<Rightarrow> Vector \<Rightarrow> real \<Rightarrow> error + corner" where
  "get_corner_type vec_up vec_right2d vec_left2d threshold =
     (if vec_right2d = vec_left2d \<and> vec_left2d = ZERO_VEC then Inr FOLDING
      else if vec_right2d = ZERO_VEC \<or> vec_left2d = ZERO_VEC then Inr STRAIGHT
      else ebind (angle vec_right2d vec_left2d) (\<lambda>ang.
        if ang < threshold then Inr FOLDING
        else if ang > ANGLE_180 - threshold then Inr STRAIGHT
        else if dot (cross vec_right2d vec_left2d) vec_up > threshold then Inr CONVEX
        else Inr CONCAVE))"

text \<open>
  The first four statements of \<open>calc_tangent\<close>: the pair of vectors handed to
  \<open>get_corner_type\<close>. The source normalizes \<open>vec_right2d\<close> on lines 90 and 92 and
  \<open>vec_left2d\<close> on neither.
\<close>

definition calc_tangent_2d :: "Vector \<Rightarrow> Vector \<Rightarrow> Vector \<Rightarrow> Vector \<times> Vector" where
  "calc_tangent_2d vec_up vec_right vec_left =
     (let vec_right2d = vsub vec_right (project vec_right vec_up);
          vec_right2d = normalized vec_right2d;
          vec_left2d = vsub vec_left (project vec_left vec_up);
          vec_right2d = normalized vec_right2d
      in (vec_right2d, vec_left2d))"

definition calc_tangent :: "Vector \<Rightarrow> Vector \<Rightarrow> Vector \<Rightarrow> real \<Rightarrow> error + Vector" where
  "calc_tangent vec_up vec_right vec_left threshold =
     (let (vec_right2d, vec_left2d) = calc_tangent_2d vec_up vec_right vec_left
      in ebind (get_corner_type vec_up vec_right2d vec_left2d threshold) (\<lambda>corner.
           let vec_tangent =
             (case corner of
                FOLDING \<Rightarrow> ZERO_VEC
              | STRAIGHT \<Rightarrow>
                  (let vec_longer =
                     (if vec_length vec_right2d \<ge> vec_length vec_left2d then vec_right2d
                      else vneg vec_left2d)
                   in cross vec_longer vec_up)
              | CONVEX \<Rightarrow> smul (-1) (vadd vec_right2d vec_left2d)
              | CONCAVE \<Rightarrow> vadd vec_right2d vec_left2d)
           in Inr (normalized vec_tangent)))"

definition get_factor ::
  "(real \<Rightarrow> real \<Rightarrow> real) \<Rightarrow> Vector \<Rightarrow> Vector \<Rightarrow> Vector \<Rightarrow> error + real" where
  "get_factor func vec_direction vec_right vec_left =
     (if vec_direction = ZERO_VEC then Inr 0
      else ebind (angle vec_direction vec_right) (\<lambda>a_r.
           ebind (angle vec_direction vec_left) (\<lambda>a_l.
             let denominator = func (sin a_r) (sin a_l)
             in if denominator \<noteq> 0 then Inr (1 / denominator) else Inr 0)))"

text \<open>A vector is a unit vector when its length is one.\<close>

definition is_unit :: "Vector \<Rightarrow> bool" where
  "is_unit a = (vec_length a = 1)"

subsection \<open>The mesh (BMesh)\<close>

text \<open>
  BMVert, BMEdge and BMFace objects are handles; the mesh record holds their attributes.
  \<open>vert_index\<close> and \<open>edge_index\<close> are the \<open>index\<close> attributes, which BMesh stores on
  the element and which need not agree with the element's position in \<open>bm.verts\<close> or
  \<open>bm.edges\<close>. A Python \<open>set\<close> of elements is a list without duplicates: its order is the
  order in which iteration and \<open>pop()\<close> deliver the elements.
\<close>

type_synonym vert = nat
type_synonym edge = nat
type_synonym face = nat

record bmesh =
  bm_verts :: "vert list"
  bm_edges :: "edge list"
  bm_faces :: "face list"
  vert_co :: "vert \<Rightarrow> Vector"
  vert_index :: "vert \<Rightarrow> int"
  vert_link_edges :: "vert \<Rightarrow> edge list"
  edge_verts :: "edge \<Rightarrow> vert \<times> vert"
  edge_index :: "edge \<Rightarrow> int"
  edge_select :: "edge \<Rightarrow> bool"
  edge_hide :: "edge \<Rightarrow> bool"
  edge_link_faces :: "edge \<Rightarrow> face list"
  face_verts :: "face \<Rightarrow> vert list"
  face_normal :: "face \<Rightarrow> Vector"
  face_select :: "face \<Rightarrow> bool"
  face_hide :: "face \<Rightarrow> bool"

text \<open>\<open>edge.other_vert(v)\<close>: the other end of the edge, or None when \<open>v\<close> is not on it.\<close>

definition other_vert :: "bmesh \<Rightarrow> edge \<Rightarrow> vert \<Rightarrow> vert option" where
  "other_vert bm e v =
     (let (v1, v2) = edge_verts bm e
      in if v = v1 then Some v2 else if v = v2 then Some v1 else None)"

text \<open>\<open>s.add(e)\<close> on a set.\<close>

definition set_add :: "'a list \<Rightarrow> 'a \<Rightarrow> 'a list" where
  "set_add s e = (if e \<in> set s then s else s @ [e])"

subsection \<open>collect_edges\<close>

text \<open>
  The inner \<open>for f in e.link_faces\<close> of \<open>collect_edges\<close> with its \<open>else\<close> clause: True
  when the loop runs to its end (the edge is added), False when it breaks because the
  count of selected faces has reached 2.
\<close>

fun link_faces_loop :: "bmesh \<Rightarrow> face list \<Rightarrow> nat \<Rightarrow> bool" where
  "link_faces_loop bm [] co_faces_selected = True"
| "link_faces_loop bm (f # fs) co_faces_selected =
     (if face_select bm f
      then (if co_faces_selected + 1 = 2 then False
            else link_faces_loop bm fs (co_faces_selected + 1))
      else link_faces_loop bm fs co_faces_selected)"

fun collect_edges_loop :: "bmesh \<Rightarrow> edge list \<Rightarrow> edge list \<Rightarrow> edge list" where
  "collect_edges_loop bm [] set_edges_orig = set_edges_orig"
| "collect_edges_loop bm (e # es) set_edges_orig =
     collect_edges_loop bm es
       (if edge_select bm e \<and> link_faces_loop bm (edge_link_faces bm e) 0
        then set_add set_edges_orig e else set_edges_orig)"

definition collect_edges :: "bmesh \<Rightarrow> edge list option" where
  "collect_edges bm =
     (let set_edges_orig = collect_edges_loop bm (bm_edges bm) []
      in if set_edges_orig = [] then None else Some set_edges_orig)"

text \<open>The number of selected faces adjacent to an edge.\<close>

definition selected_faces :: "bmesh \<Rightarrow> edge \<Rightarrow> nat" where
  "selected_faces bm e = length (filter (face_select bm) (edge_link_faces bm e))"

text \<open>
  The qualifying set in the words of the specification: selected, and the count of selected
  adjacent faces is not 2.
\<close>

definition qualifies_spec :: "bmesh \<Rightarrow> edge set" where
  "qualifies_spec bm = {e \<in> set (bm_edges bm). edge_select bm e \<and> selected_faces bm e \<noteq> 2}"

text \<open>The qualifying set as the code computes it: fewer than 2 selected adjacent faces.\<close>

definition qualifies :: "bmesh \<Rightarrow> edge set" where
  "qualifies bm = {e \<in> set (bm_edges bm). edge_select bm e \<and> selected_faces bm e < 2}"

subsection \<open>collect_loops\<close>

text \<open>A loop is the Python list \<open>[v, e, v, e, ..., e, v]\<close> of mesh elements.\<close>

datatype elem = Vert vert | Edge edge | Face face

text \<open>
  The \<open>for e in v_right.link_edges\<close> scan inside \<open>collect_loops\<close>, on the remaining link
  edges, the current value of \<open>edge\<close> and the set \<open>set_edges_copy\<close>. None is the
  \<open>return None\<close> of the source (overlap detected); otherwise the final \<open>edge\<close> and set.
\<close>

fun scan_link_edges ::
  "edge list \<Rightarrow> edge option \<Rightarrow> edge list \<Rightarrow> (edge option \<times> edge list) option" where
  "scan_link_edges [] edge set_edges_copy = Some (edge, set_edges_copy)"
| "scan_link_edges (e # es) edge set_edges_copy =
     (if e \<in> set set_edges_copy
      then (case edge of
              Some _ \<Rightarrow> None
            | None \<Rightarrow> scan_link_edges es (Some e) (remove1 e set_edges_copy))
      else scan_link_edges es edge set_edges_copy)"

lemma scan_link_edges_Some:
  "scan_link_edges es (Some a) s = Some (r, s') \<Longrightarrow> r = Some a \<and> s' = s"
  by (induction es) (auto split: if_splits)

lemma scan_link_edges_None:
  "scan_link_edges es None s = Some (r, s') \<Longrightarrow>
     (r = None \<and> s' = s) \<or> (\<exists>e. r = Some e \<and> e \<in> set s \<and> s' = remove1 e s)"
  by (induction es) (auto split: if_splits dest: scan_link_edges_Some)

lemma scan_link_edges_found_length:
  "scan_link_edges es None s = Some (Some e, s') \<Longrightarrow> length s' < length s"
  by (drule scan_link_edges_None) (auto simp: length_remove1 dest!: length_pos_if_in_set)

lemma scan_link_edges_none_same:
  "scan_link_edges es None s = Some (None, s') \<Longrightarrow> s' = s"
  by (drule scan_link_edges_None) auto

text \<open>
  The inner \<open>while True\<close> of \<open>collect_loops\<close>. The result is an exception (the attribute
  access on the None that \<open>other_vert\<close> returned), None for \<open>return None\<close>, or the finished
  loop with the remaining set.
\<close>

function grow ::
  "bmesh \<Rightarrow> edge list \<Rightarrow> elem list \<Rightarrow> vert \<Rightarrow> vert \<Rightarrow> bool
     \<Rightarrow> error + (elem list \<times> edge list) option" where
  "grow bm set_edges_copy lp v_left v_right reverse =
     (case scan_link_edges (vert_link_edges bm v_right) None set_edges_copy of
        None \<Rightarrow> Inr None
      | Some (Some edge, set_edges_copy') \<Rightarrow>
          (case other_vert bm edge v_right of
             None \<Rightarrow> Inl AttributeError
           | Some v_right' \<Rightarrow>
               grow bm set_edges_copy' (lp @ [Edge edge, Vert v_right']) v_left v_right' reverse)
      | Some (None, set_edges_copy') \<Rightarrow>
          (if v_right = v_left then Inr (Some (lp, set_edges_copy'))
           else if \<not> reverse then grow bm set_edges_copy' (rev lp) v_right v_left True
           else Inr (Some (lp, set_edges_copy'))))"
  by pat_completeness auto
termination
  by (relation "measure (\<lambda>(bm, s, lp, v_left, v_right, reverse).
        2 * length s + (if reverse then 0 else 1))")
     (auto dest: scan_link_edges_found_length scan_link_edges_none_same)

declare grow.simps [simp del]

lemma grow_length:
  "grow bm s lp v_left v_right reverse = Inr (Some (lp', s')) \<Longrightarrow> length s' \<le> length s"
proof (induction bm s lp v_left v_right reverse rule: grow.induct)
  case (1 bm s lp v_left v_right reverse)
  from "1.prems" obtain r s1 where
    sc: "scan_link_edges (vert_link_edges bm v_right) None s = Some (r, s1)"
    by (subst (asm) grow.simps) (auto split: option.splits)
  show ?case
  proof (cases r)
    case None
    with sc have s1: "s1 = s" by (auto dest: scan_link_edges_none_same)
    show ?thesis
    proof (cases "v_right \<noteq> v_left \<and> \<not> reverse")
      case True
      with "1.prems" sc None
      have "grow bm s1 (rev lp) v_right v_left True = Inr (Some (lp', s'))"
        by (subst (asm) grow.simps) simp
      with "1.IH"(1) [OF sc refl None] True s1 show ?thesis by simp
    next
      case False
      with "1.prems" sc None s1 show ?thesis
        by (subst (asm) grow.simps) (auto split: if_splits)
    qed
  next
    case (Some e)
    with sc have len: "length s1 < length s" by (auto dest: scan_link_edges_found_length)
    from "1.prems" sc Some obtain v' where
      ov: "other_vert bm e v_right = Some v'" and
      g: "grow bm s1 (lp @ [Edge e, Vert v']) v_left v' reverse = Inr (Some (lp', s'))"
      by (subst (asm) grow.simps) (auto split: option.splits)
    from "1.IH"(2) [OF sc refl Some ov g] len show ?thesis by simp
  qed
qed

text \<open>The outer \<open>while set_edges_copy\<close> of \<open>collect_loops\<close>; \<open>pop()\<close> takes the head.\<close>

function collect_loops_while ::
  "bmesh \<Rightarrow> edge list \<Rightarrow> elem list list \<Rightarrow> error + elem list list option" where
  "collect_loops_while bm [] loops = Inr (Some loops)"
| "collect_loops_while bm (edge_start # set_edges_copy) loops =
     (let (v_left, v_right) = edge_verts bm edge_start;
          lp = [Vert v_left, Edge edge_start, Vert v_right]
      in case grow bm set_edges_copy lp v_left v_right False of
           Inl err \<Rightarrow> Inl err
         | Inr None \<Rightarrow> Inr None
         | Inr (Some (lp', set_edges_copy')) \<Rightarrow>
             collect_loops_while bm set_edges_copy' (loops @ [lp']))"
  by pat_completeness auto
termination
  by (relation "measure (\<lambda>(bm, s, loops). length s)")
     (auto dest: grow_length simp: less_Suc_eq_le)

definition collect_loops :: "bmesh \<Rightarrow> edge list \<Rightarrow> error + elem list list option" where
  "collect_loops bm set_edges_orig = collect_loops_while bm set_edges_orig []"

text \<open>The edges a loop contains, and the number of edges of a set that touch a vertex.\<close>

fun edges_of :: "elem list \<Rightarrow> edge list" where
  "edges_of [] = []"
| "edges_of (Edge e # xs) = e # edges_of xs"
| "edges_of (x # xs) = edges_of xs"

definition degree_in :: "bmesh \<Rightarrow> edge list \<Rightarrow> vert \<Rightarrow> nat" where
  "degree_in bm s v =
     length (filter (\<lambda>e. v = fst (edge_verts bm e) \<or> v = snd (edge_verts bm e)) s)"

subsection \<open>Python lists\<close>

text \<open>\<open>xs[i]\<close>: a negative index counts from the end, out of range raises IndexError.\<close>

definition py_index :: "'a list \<Rightarrow> int \<Rightarrow> error + 'a" where
  "py_index xs i =
     (if 0 \<le> i \<and> i < int (length xs) then Inr (xs ! nat i)
      else if i < 0 \<and> - int (length xs) \<le> i then Inr (xs ! nat (int (length xs) + i))
      else Inl IndexError)"

text \<open>\<open>xs[lo:hi]\<close> with integer bounds: a negative bound counts from the end, then both are clamped.\<close>

definition py_bound :: "nat \<Rightarrow> int \<Rightarrow> nat" where
  "py_bound n i = (let j = (if i < 0 then int n + i else i) in nat (max 0 (min (int n) j)))"

definition py_slice :: "'a list \<Rightarrow> int \<Rightarrow> int \<Rightarrow> 'a list" where
  "py_slice xs lo hi = drop (py_bound (length xs) lo) (take (py_bound (length xs) hi) xs)"

text \<open>\<open>xs[::2]\<close> and \<open>xs[1::2]\<close>.\<close>

fun py_even :: "'a list \<Rightarrow> 'a list" where
  "py_even [] = []"
| "py_even [x] = [x]"
| "py_even (x # y # xs) = x # py_even xs"

fun py_odd :: "'a list \<Rightarrow> 'a list" where
  "py_odd [] = []"
| "py_odd [x] = []"
| "py_odd (x # y # xs) = y # py_odd xs"

text \<open>\<open>xs.index(a)\<close>: the first position of \<open>a\<close>, ValueError when it is absent.\<close>

fun list_index :: "'a list \<Rightarrow> 'a \<Rightarrow> error + nat" where
  "list_index [] a = Inl ValueError"
| "list_index (x # xs) a =
     (if x = a then Inr 0 else ebind (list_index xs a) (\<lambda>i. Inr (Suc i)))"

text \<open>A list comprehension whose element expression can raise.\<close>

fun emap :: "('a \<Rightarrow> error + 'b) \<Rightarrow> 'a list \<Rightarrow> error + 'b list" where
  "emap f [] = Inr []"
| "emap f (x # xs) = ebind (f x) (\<lambda>y. ebind (emap f xs) (\<lambda>ys. Inr (y # ys)))"

subsection \<open>Mirror planes\<close>

text \<open>
  A modifier of the edit object. For a mirror modifier with a mirror object, the field
  \<open>mirror_object\<close> holds what mathutils computes from the two world matrices: the
  translation of \<open>eob_mat_inv * mirror_object.matrix_world\<close> and the first three rows of
  its adjugate, cut to three components.
\<close>

record modifier =
  m_type :: string
  use_mirror_merge :: bool
  merge_threshold :: real
  mirror_object :: "(Vector \<times> Vector \<times> Vector \<times> Vector) option"
  use_x :: bool
  use_y :: bool
  use_z :: bool

record edit_object =
  modifiers :: "modifier list"

text \<open>A mirror plane is the tuple \<open>(loc, norm, merge_limit)\<close>.\<close>

type_synonym mirror_plane = "Vector \<times> Vector \<times> real"

text \<open>
  \<open>collect_mirror_planes\<close>. The module-level vector \<open>Z_UP\<close> is mutable and the source
  multiplies it in place through an alias (see \<open>get_directions\<close>), so its current value
  \<open>z_up\<close> is an argument. The normal of a z plane is the object \<open>Z_UP\<close> itself; a plane here
  keeps the value read when the planes were collected. The only change \<open>Z_UP\<close> undergoes is
  a change of sign, and \<open>get_mirror_rail\<close> and the projections use a plane normal up to
  its sign only.
\<close>

definition modifier_planes :: "Vector \<Rightarrow> modifier \<Rightarrow> mirror_plane list" where
  "modifier_planes z_up m =
     (if m_type m = ''MIRROR'' \<and> use_mirror_merge m
      then (let merge_limit = merge_threshold m;
                (loc, norm_x, norm_y, norm_z) =
                  (case mirror_object m of
                     None \<Rightarrow> (ZERO_VEC, X_UP, Y_UP, z_up)
                   | Some (loc, ax, ay, az) \<Rightarrow>
                       (loc, normalized ax, normalized ay, normalized az))
            in (if use_x m then [(loc, norm_x, merge_limit)] else [])
             @ (if use_y m then [(loc, norm_y, merge_limit)] else [])
             @ (if use_z m then [(loc, norm_z, merge_limit)] else []))
      else [])"

definition collect_mirror_planes :: "edit_object \<Rightarrow> Vector \<Rightarrow> mirror_plane list" where
  "collect_mirror_planes ob z_up = concat (map (modifier_planes z_up) (modifiers ob))"

text \<open>
  The dict \<open>vert_mirror_pairs\<close> is an association list; \<open>d[k] = v\<close> is \<open>AList.update\<close>.
  The inner \<open>for mp in mirror_planes\<close> of \<open>get_vert_mirror_pairs\<close>, for one edge:
  \<open>set_edges_copy.remove(e)\<close> raises KeyError when \<open>e\<close> is no longer in the set.
\<close>

fun mirror_planes_loop ::
  "bmesh \<Rightarrow> edge \<Rightarrow> mirror_plane list \<Rightarrow> (vert \<times> mirror_plane) list \<Rightarrow> edge list
     \<Rightarrow> error + ((vert \<times> mirror_plane) list \<times> edge list)" where
  "mirror_planes_loop bm e [] vert_mirror_pairs set_edges_copy =
     Inr (vert_mirror_pairs, set_edges_copy)"
| "mirror_planes_loop bm e (mp # mps) vert_mirror_pairs set_edges_copy =
     (let (v1, v2) = edge_verts bm e;
          (p_co, p_norm, mlimit) = mp;
          v1_dist = \<bar>dot p_norm (vsub (vert_co bm v1) p_co)\<bar>;
          v2_dist = \<bar>dot p_norm (vsub (vert_co bm v2) p_co)\<bar>;
          vert_mirror_pairs =
            (if v1_dist \<le> mlimit then AList.update v1 mp vert_mirror_pairs
             else vert_mirror_pairs);
          vert_mirror_pairs =
            (if v2_dist \<le> mlimit then AList.update v2 mp vert_mirror_pairs
             else vert_mirror_pairs)
      in if v1_dist \<le> mlimit \<and> v2_dist \<le> mlimit
         then (if e \<in> set set_edges_copy
               then mirror_planes_loop bm e mps vert_mirror_pairs (remove1 e set_edges_copy)
               else Inl KeyError)
         else mirror_planes_loop bm e mps vert_mirror_pairs set_edges_copy)"

fun mirror_edges_loop ::
  "bmesh \<Rightarrow> edge list \<Rightarrow> mirror_plane list \<Rightarrow> (vert \<times> mirror_plane) list \<Rightarrow> edge list
     \<Rightarrow> error + ((vert \<times> mirror_plane) list \<times> edge list)" where
  "mirror_edges_loop bm [] mirror_planes vert_mirror_pairs set_edges_copy =
     Inr (vert_mirror_pairs, set_edges_copy)"
| "mirror_edges_loop bm (e # es) mirror_planes vert_mirror_pairs set_edges_copy =
     ebind (mirror_planes_loop bm e mirror_planes vert_mirror_pairs set_edges_copy)
       (\<lambda>(vert_mirror_pairs, set_edges_copy).
          mirror_edges_loop bm es mirror_planes vert_mirror_pairs set_edges_copy)"

definition get_vert_mirror_pairs ::
  "bmesh \<Rightarrow> edge list \<Rightarrow> mirror_plane list
     \<Rightarrow> error + ((vert \<times> mirror_plane) list option \<times> edge list)" where
  "get_vert_mirror_pairs bm set_edges_orig mirror_planes =
     (if mirror_planes \<noteq> []
      then ebind (mirror_edges_loop bm set_edges_orig mirror_planes [] set_edges_orig)
             (\<lambda>(vert_mirror_pairs, set_edges_copy).
                Inr (Some vert_mirror_pairs, set_edges_copy))
      else Inr (None, set_edges_orig))"

subsection \<open>Rails\<close>

definition get_mirror_rail :: "mirror_plane \<Rightarrow> Vector \<Rightarrow> Vector option \<times> Vector" where
  "get_mirror_rail mirror_plane vec_up =
     (let p_norm = fst (snd mirror_plane);
          mirror_rail = cross vec_up p_norm
      in if mirror_rail \<noteq> ZERO_VEC
         then (Some mirror_rail, normalized (vsub vec_up (project vec_up p_norm)))
         else (None, vec_up))"

text \<open>
  The loop of \<open>get_edge_rail\<close>; its \<open>else\<close> clause returns \<open>vec_inner\<close> when the loop ends
  without the \<open>return None\<close> of a second candidate.
\<close>

fun get_edge_rail_loop ::
  "bmesh \<Rightarrow> vert \<Rightarrow> edge list \<Rightarrow> edge list \<Rightarrow> nat \<Rightarrow> Vector option \<Rightarrow> error + Vector option"
  where
  "get_edge_rail_loop bm vert set_edges_orig [] co_edge vec_inner = Inr vec_inner"
| "get_edge_rail_loop bm vert set_edges_orig (e # es) co_edge vec_inner =
     (if \<not> edge_hide bm e \<and> e \<notin> set set_edges_orig
      then (case other_vert bm e vert of
              None \<Rightarrow> Inl AttributeError
            | Some v_other \<Rightarrow>
                (let vec = vsub (vert_co bm v_other) (vert_co bm vert)
                 in if vec \<noteq> ZERO_VEC
                    then (if co_edge + 1 = 2 then Inr None
                          else get_edge_rail_loop bm vert set_edges_orig es (co_edge + 1)
                                 (Some vec))
                    else get_edge_rail_loop bm vert set_edges_orig es co_edge vec_inner))
      else get_edge_rail_loop bm vert set_edges_orig es co_edge vec_inner)"

definition get_edge_rail :: "bmesh \<Rightarrow> vert \<Rightarrow> edge list \<Rightarrow> error + Vector option" where
  "get_edge_rail bm vert set_edges_orig =
     get_edge_rail_loop bm vert set_edges_orig (vert_link_edges bm vert) 0 None"

definition get_cross_rail ::
  "Vector \<Rightarrow> Vector \<Rightarrow> Vector \<Rightarrow> Vector \<Rightarrow> Vector \<Rightarrow> real \<Rightarrow> error + Vector option" where
  "get_cross_rail vec_tan vec_edge_r vec_edge_l normal_r normal_l threshold =
     ebind (angle normal_r normal_l) (\<lambda>ang.
       if ang < threshold then Inr None
       else (let vec_cross = normalized (cross normal_r normal_l);
                 vec_cross = (if dot vec_cross vec_tan < 0 then smul (-1) vec_cross
                              else vec_cross);
                 cos_min = min (dot vec_tan vec_edge_r) (dot vec_tan vec_edge_l);
                 cos = dot vec_tan vec_cross
             in if cos \<ge> cos_min then Inr (Some vec_cross) else Inr None))"

text \<open>
  Lines 458 to 471 of \<open>get_directions\<close>: the choice of the rail for vertex \<open>v\<close>. The
  result is the rail and the (possibly projected) up vector. A Vector is truthy whatever
  its components, so \<open>not rail\<close> is \<open>rail is None\<close>; an empty dict is falsy.
\<close>

definition choose_rail ::
  "bmesh \<Rightarrow> (vert \<times> mirror_plane) list option \<Rightarrow> bool \<Rightarrow> bool \<Rightarrow> real \<Rightarrow> edge list
     \<Rightarrow> vert \<Rightarrow> bool \<Rightarrow> Vector \<Rightarrow> Vector \<Rightarrow> Vector \<Rightarrow> Vector
     \<Rightarrow> Vector option \<Rightarrow> Vector option \<Rightarrow> error + (Vector option \<times> Vector)" where
  "choose_rail bm vert_mirror_pairs opt_edge_rail opt_er_only_end opt_threshold set_edges
       v VERT_END vec_tan vec_up vec_edge_r vec_edge_l normal_r normal_l =
     (let (rail, vec_up) =
            (case vert_mirror_pairs of
               Some pairs \<Rightarrow>
                 (if pairs \<noteq> [] \<and> VERT_END
                  then (case map_of pairs v of
                          Some mp \<Rightarrow> get_mirror_rail mp vec_up
                        | None \<Rightarrow> (None, vec_up))
                  else (None, vec_up))
             | None \<Rightarrow> (None, vec_up))
      in ebind (if opt_edge_rail
                then (if \<not> opt_er_only_end \<or> VERT_END then get_edge_rail bm v set_edges
                      else Inr rail)
                else Inr rail) (\<lambda>rail.
         ebind (case (rail, normal_r, normal_l) of
                  (None, Some n_r, Some n_l) \<Rightarrow>
                    get_cross_rail vec_tan vec_edge_r vec_edge_l n_r n_l opt_threshold
                | _ \<Rightarrow> Inr rail) (\<lambda>rail.
         Inr (rail, vec_up))))"

text \<open>Lines 472 to 477: projection of tangent and up on the chosen rail.\<close>

definition apply_rail :: "Vector option \<Rightarrow> Vector \<Rightarrow> Vector \<Rightarrow> Vector \<times> Vector" where
  "apply_rail rail vec_tan vec_up =
     (case rail of
        Some r \<Rightarrow> (normalized (project vec_tan r), normalized (vsub vec_up (project vec_up r)))
      | None \<Rightarrow> (vec_tan, vec_up))"

subsection \<open>get_directions and its helpers\<close>

text \<open>
  The elements of a loop are used as vertices (\<open>v.co\<close>) and edges (\<open>e.other_vert\<close>); the
  access raises AttributeError on an element of another kind.
\<close>

fun the_vert :: "elem \<Rightarrow> error + vert" where
  "the_vert (Vert v) = Inr v"
| "the_vert _ = Inl AttributeError"

fun the_edge :: "elem \<Rightarrow> error + edge" where
  "the_edge (Edge e) = Inr e"
| "the_edge _ = Inl AttributeError"

definition newell :: "bmesh \<Rightarrow> Vector \<Rightarrow> vert \<times> vert \<Rightarrow> Vector" where
  "newell bm normal p =
     (let v1co = vert_co bm (fst p); v2co = vert_co bm (snd p)
      in Vector (vx normal + (vy v1co - vy v2co) * (vz v1co + vz v2co))
                (vy normal + (vz v1co - vz v2co) * (vx v1co + vx v2co))
                (vz normal + (vx v1co - vx v2co) * (vy v1co + vy v2co)))"

text \<open>
  \<open>calc_normal_from_verts\<close>. The second component is True when the function returns the
  \<open>fallback\<close> object itself (no copy is made), so that a later in-place change of the
  result changes the caller's fallback vector.
\<close>

definition calc_normal_from_verts ::
  "bmesh \<Rightarrow> vert list \<Rightarrow> Vector \<Rightarrow> error + (Vector \<times> bool)" where
  "calc_normal_from_verts bm verts fallback =
     (if verts = [] then Inl IndexError
      else (let verts_2 = tl verts;
                verts_2 = (if hd verts \<noteq> last verts then verts_2 @ [hd verts] else verts_2);
                normal = foldl (newell bm) ZERO_VEC (zip verts verts_2);
                normal = normalized normal
            in if normal = ZERO_VEC then Inr (fallback, True) else Inr (normal, False)))"

text \<open>The inner loop of \<open>get_adj_faces\<close> for one edge, with its \<open>break\<close> on a selected face.\<close>

fun adj_face_loop :: "bmesh \<Rightarrow> face list \<Rightarrow> face option \<Rightarrow> face option" where
  "adj_face_loop bm [] face = face"
| "adj_face_loop bm (f # fs) face =
     (if \<not> face_hide bm f \<and> face_normal bm f \<noteq> ZERO_VEC
      then (if face_select bm f then Some f else adj_face_loop bm fs (Some f))
      else adj_face_loop bm fs face)"

definition get_adj_faces :: "bmesh \<Rightarrow> edge list \<Rightarrow> face option list option" where
  "get_adj_faces bm edges =
     (let adj_faces = map (\<lambda>e. adj_face_loop bm (edge_link_faces bm e) None) edges;
          adj_exist = list_ex (\<lambda>face. face \<noteq> None) adj_faces
      in if adj_exist then Some adj_faces else None)"

text \<open>The first position of \<open>adj_faces\<close> that holds a face, counted from \<open>i\<close>.\<close>

fun first_face :: "face option list \<Rightarrow> nat \<Rightarrow> (nat \<times> face) option" where
  "first_face [] i = None"
| "first_face (None # fs) i = first_face fs (Suc i)"
| "first_face (Some f # fs) i = Some (i, f)"

text \<open>
  \<open>reorder_loop\<close>. Its \<open>normal *= -1\<close> changes the vector object passed in; \<open>orient_loop\<close>
  below accounts for that.
\<close>

definition reorder_loop ::
  "bmesh \<Rightarrow> vert list \<Rightarrow> edge list \<Rightarrow> Vector \<Rightarrow> face option list
     \<Rightarrow> error + (vert list \<times> edge list \<times> Vector \<times> face option list)" where
  "reorder_loop bm verts edges normal adj_faces =
     (case first_face adj_faces 0 of
        None \<Rightarrow> Inr (verts, edges, normal, adj_faces)
      | Some (i, adj_f) \<Rightarrow>
          ebind (py_index verts (int i)) (\<lambda>v1.
          ebind (py_index verts (int i + 1)) (\<lambda>v2.
          ebind (py_index edges (int i)) (\<lambda>e.
          let fv = face_verts bm adj_f in
          ebind (list_index fv v1) (\<lambda>ix.
          ebind (py_index fv (int ix - 1)) (\<lambda>prev.
          let (verts, edges, adj_faces) =
                (if prev = v2 then (rev verts, rev edges, rev adj_faces)
                 else (verts, edges, adj_faces));
              normal = (if dot normal (face_normal bm adj_f) < 0 then smul (-1) normal
                        else normal)
          in Inr (verts, edges, normal, adj_faces)))))))"

text \<open>
  One of the two searches of \<open>get_adj_ix\<close>: the first index of the range, reduced modulo
  the number of edges, whose edge vector is not zero. With no edges the reduction raises
  ZeroDivisionError on the first pass.
\<close>

definition first_nonzero :: "Vector list \<Rightarrow> int list \<Rightarrow> error + nat option" where
  "first_nonzero vec_edges rng =
     (if rng = [] then Inr None
      else if vec_edges = [] then Inl ZeroDivisionError
      else Inr (find (\<lambda>i. vec_edges ! i \<noteq> ZERO_VEC)
                  (map (\<lambda>i. nat (i mod int (length vec_edges))) rng)))"

text \<open>\<open>range(lo, hi)\<close> for integers; \<open>range(hi - 1, lo - 1, -1)\<close> is its reverse.\<close>

definition py_range :: "int \<Rightarrow> int \<Rightarrow> int list" where
  "py_range lo hi = map (\<lambda>k. lo + int k) [0 ..< nat (hi - lo)]"

definition get_adj_ix ::
  "nat \<Rightarrow> Vector list \<Rightarrow> bool \<Rightarrow> error + (nat option \<times> nat option)" where
  "get_adj_ix ix_start vec_edges half_loop =
     (let len_edges = int (length vec_edges);
          range_right = (if half_loop then py_range (int ix_start) len_edges
                         else py_range (int ix_start) (int ix_start + len_edges));
          range_left = (if half_loop then rev (py_range 0 (int ix_start))
                        else rev (py_range (int ix_start - len_edges) (int ix_start)))
      in ebind (first_nonzero vec_edges range_right) (\<lambda>ix_right.
         ebind (first_nonzero vec_edges range_left) (\<lambda>ix_left.
         if half_loop
         then (let ix_right = (if ix_right = None then ix_left else ix_right);
                   ix_left = (if ix_left = None then ix_right else ix_left)
               in Inr (ix_right, ix_left))
         else Inr (ix_right, ix_left))))"

definition get_normals ::
  "bmesh \<Rightarrow> Vector \<Rightarrow> nat \<Rightarrow> nat \<Rightarrow> face option list option
     \<Rightarrow> error + (Vector \<times> Vector option \<times> Vector option)" where
  "get_normals bm lp_normal ix_r ix_l adj_faces =
     ebind (case adj_faces of
              None \<Rightarrow> Inr (None, None)
            | Some fs \<Rightarrow>
                (if fs = [] then Inr (None, None)
                 else ebind (py_index fs (int ix_r)) (\<lambda>f_r.
                      ebind (py_index fs (int ix_l)) (\<lambda>f_l.
                      Inr (map_option (face_normal bm) f_r, map_option (face_normal bm) f_l)))))
       (\<lambda>(normal_r, normal_l).
          let vec_up =
                (case (normal_r, normal_l) of
                   (Some n_r, Some n_l) \<Rightarrow>
                     (let vec_up = normalized (vadd n_r n_l)
                      in if vec_up = ZERO_VEC then lp_normal else vec_up)
                 | (Some n_r, None) \<Rightarrow> n_r
                 | (None, Some n_l) \<Rightarrow> n_l
                 | (None, None) \<Rightarrow> lp_normal)
          in Inr (vec_up, normal_r, normal_l))"

text \<open>
  The body of the \<open>for i in range(len_verts)\<close> loop of \<open>get_directions\<close>. None is the
  early \<open>return [], []\<close> for a loop of length zero.
\<close>

definition direction_at ::
  "bmesh \<Rightarrow> (vert \<times> mirror_plane) list option \<Rightarrow> bool \<Rightarrow> bool \<Rightarrow> real \<Rightarrow> edge list
     \<Rightarrow> vert list \<Rightarrow> Vector list \<Rightarrow> bool \<Rightarrow> Vector \<Rightarrow> face option list option \<Rightarrow> nat
     \<Rightarrow> error + (Vector \<times> Vector) option" where
  "direction_at bm vert_mirror_pairs opt_edge_rail opt_er_only_end opt_threshold set_edges
       verts vec_edges HALF_LOOP lp_normal adj_faces i =
     (let len_verts = length verts;
          v = verts ! i;
          VERT_END = (HALF_LOOP \<and> (i = 0 \<or> int i = int len_verts - 1))
      in ebind (get_adj_ix i vec_edges HALF_LOOP) (\<lambda>(ix_r, ix_l).
         case ix_r of
           None \<Rightarrow> Inr None
         | Some ix_r \<Rightarrow>
             (case ix_l of
                None \<Rightarrow> Inl TypeError
              | Some ix_l \<Rightarrow>
                  ebind (py_index vec_edges (int ix_r)) (\<lambda>vec_edge_r.
                  ebind (py_index vec_edges (int ix_l)) (\<lambda>e_l.
                  let vec_edge_l = vneg e_l in
                  ebind (get_normals bm lp_normal ix_r ix_l adj_faces)
                    (\<lambda>(vec_up, normal_r, normal_l).
                  ebind (calc_tangent vec_up vec_edge_r vec_edge_l opt_threshold) (\<lambda>vec_tan.
                  ebind (if vec_tan \<noteq> ZERO_VEC
                         then ebind (choose_rail bm vert_mirror_pairs opt_edge_rail
                                       opt_er_only_end opt_threshold set_edges v VERT_END
                                       vec_tan vec_up vec_edge_r vec_edge_l normal_r normal_l)
                                (\<lambda>(rail, vec_up). Inr (apply_rail rail vec_tan vec_up))
                         else Inr (vec_tan, vec_up)) (\<lambda>(vec_tan, vec_up).
                  ebind (get_factor max vec_tan vec_edge_r vec_edge_l) (\<lambda>f_tan.
                  ebind (get_factor max vec_up vec_edge_r vec_edge_l) (\<lambda>f_up.
                  Inr (Some (smul f_tan vec_tan, smul f_up vec_up))))))))))))"

fun directions_loop ::
  "(nat \<Rightarrow> error + (Vector \<times> Vector) option) \<Rightarrow> nat list \<Rightarrow> (Vector \<times> Vector) list
     \<Rightarrow> error + (Vector \<times> Vector) list option" where
  "directions_loop body [] directions = Inr (Some directions)"
| "directions_loop body (i # is) directions =
     (case body i of
        Inl err \<Rightarrow> Inl err
      | Inr None \<Rightarrow> Inr None
      | Inr (Some d) \<Rightarrow> directions_loop body is (directions @ [d]))"

text \<open>
  Lines 410 to 426 of \<open>get_directions\<close>, between the two comments "Loop order might be
  changed": the loop normal, the reversal against \<open>vec_upward\<close> and the reordering along
  an adjacent face. The last component of the result is the value of the
  \<open>normal_fallback\<close> object afterwards: the loop normal is that very object whenever the
  Newell normal is zero, and \<open>lp_normal *= -1\<close> (line 417) and \<open>normal *= -1\<close> (in
  \<open>reorder_loop\<close>) then multiply it in place.
\<close>

definition orient_loop ::
  "bmesh \<Rightarrow> vert list \<Rightarrow> edge list \<Rightarrow> Vector \<Rightarrow> Vector \<Rightarrow> bool
     \<Rightarrow> error + (vert list \<times> edge list \<times> Vector \<times> face option list option \<times> Vector)" where
  "orient_loop bm verts edges vec_upward normal_fallback opt_follow_face =
     ebind (calc_normal_from_verts bm verts normal_fallback) (\<lambda>(lp_normal, aliased).
     let (verts, edges, lp_normal) =
           (if dot lp_normal vec_upward < 0 then (rev verts, rev edges, smul (-1) lp_normal)
            else (verts, edges, lp_normal)) in
     ebind (if opt_follow_face
            then (case get_adj_faces bm edges of
                    None \<Rightarrow> Inr (verts, edges, lp_normal, None)
                  | Some adj_faces \<Rightarrow>
                      (if adj_faces = [] then Inr (verts, edges, lp_normal, Some adj_faces)
                       else ebind (reorder_loop bm verts edges lp_normal adj_faces)
                              (\<lambda>(verts, edges, lp_normal, adj_faces).
                                 Inr (verts, edges, lp_normal, Some adj_faces))))
            else Inr (verts, edges, lp_normal, None))
       (\<lambda>(verts, edges, lp_normal, adj_faces).
          Inr (verts, edges, lp_normal, adj_faces,
               if aliased then lp_normal else normal_fallback)))"

text \<open>
  Lines 428 to 483 of \<open>get_directions\<close>: the edge vectors, the test for a closed loop
  and the loop over the vertices.
\<close>

definition loop_directions ::
  "bmesh \<Rightarrow> (vert \<times> mirror_plane) list option \<Rightarrow> bool \<Rightarrow> bool \<Rightarrow> real \<Rightarrow> edge list
     \<Rightarrow> vert list \<Rightarrow> edge list \<Rightarrow> Vector \<Rightarrow> face option list option
     \<Rightarrow> error + (vert list \<times> (Vector \<times> Vector) list)" where
  "loop_directions bm vert_mirror_pairs opt_edge_rail opt_er_only_end opt_threshold set_edges
       verts edges lp_normal adj_faces =
     ebind (emap (\<lambda>(v, e). case other_vert bm e v of
                             None \<Rightarrow> Inl AttributeError
                           | Some v_other \<Rightarrow>
                               Inr (normalized (vsub (vert_co bm v_other) (vert_co bm v))))
              (zip verts edges)) (\<lambda>vec_edges.
     if verts = [] then Inl IndexError else
     let (verts, HALF_LOOP) =
           (if hd verts = last verts then (butlast verts, False) else (verts, True)) in
     ebind (directions_loop
              (direction_at bm vert_mirror_pairs opt_edge_rail opt_er_only_end opt_threshold
                 set_edges verts vec_edges HALF_LOOP lp_normal adj_faces)
              [0 ..< length verts] []) (\<lambda>directions.
     case directions of
       None \<Rightarrow> Inr ([], [])
     | Some directions \<Rightarrow> Inr (verts, directions)))"

text \<open>
  \<open>get_directions\<close>. The result is the pair \<open>(verts, directions)\<close> and, third, the value
  of the \<open>normal_fallback\<close> object when the function returns.
\<close>

definition get_directions ::
  "bmesh \<Rightarrow> elem list \<Rightarrow> Vector \<Rightarrow> Vector \<Rightarrow> (vert \<times> mirror_plane) list option
     \<Rightarrow> bool \<Rightarrow> bool \<Rightarrow> bool \<Rightarrow> real
     \<Rightarrow> error + (vert list \<times> (Vector \<times> Vector) list \<times> Vector)" where
  "get_directions bm lp vec_upward normal_fallback vert_mirror_pairs
       opt_follow_face opt_edge_rail opt_er_only_end opt_threshold =
     ebind (emap the_vert (py_even lp)) (\<lambda>verts.
     ebind (emap the_edge (py_odd lp)) (\<lambda>edges.
     let set_edges = remdups edges in
     ebind (orient_loop bm verts edges vec_upward normal_fallback opt_follow_face)
       (\<lambda>(verts, edges, lp_normal, adj_faces, fallback').
     ebind (loop_directions bm vert_mirror_pairs opt_edge_rail opt_er_only_end opt_threshold
              set_edges verts edges lp_normal adj_faces)
       (\<lambda>(verts, directions). Inr (verts, directions, fallback')))))"

subsection \<open>The operator\<close>

datatype geometry_mode = Offset | Extrude | Move

datatype depth_mode = Angle | Depth

text \<open>
  The properties of an \<open>OffsetEdges\<close> instance and its two cache attributes. A cached
  entry holds the \<open>index\<close> attributes of a loop's vertices and the loop's directions.
\<close>

record OffsetEdges =
  op_geometry_mode :: geometry_mode
  op_width :: real
  op_flip_width :: bool
  op_depth :: real
  op_flip_depth :: bool
  op_depth_mode :: depth_mode
  op_angle :: real
  op_flip_angle :: bool
  op_follow_face :: bool
  op_mirror_modifier :: bool
  op_edge_rail :: bool
  op_edge_rail_only_end :: bool
  op_threshold :: real
  op_caches_valid :: bool
  op_cache_offset_infos :: "(int list \<times> (Vector \<times> Vector) list) list option"
  op_cache_edges_orig_ixs :: "int list option"

text \<open>
  What \<open>get_offset_infos\<close> returns: \<open>(None, None)\<close> to use the cache, \<open>(False, False)\<close>
  after a warning, or \<open>(offset_infos, set_edges_orig)\<close>.
\<close>

datatype offset_result =
  UseCache
| Failure
| Computed "(vert list \<times> (Vector \<times> Vector) list) list" "edge list"

text \<open>
  The \<open>for lp in loops\<close> of \<open>get_offset_infos\<close>. \<open>normal_fallback\<close> is the object \<open>Z_UP\<close>
  itself, so the value \<open>get_directions\<close> leaves in it is passed on to the next loop.
\<close>

fun offset_infos_loop ::
  "bmesh \<Rightarrow> Vector \<Rightarrow> (vert \<times> mirror_plane) list option \<Rightarrow> bool \<Rightarrow> bool \<Rightarrow> bool \<Rightarrow> real
     \<Rightarrow> elem list list \<Rightarrow> (vert list \<times> (Vector \<times> Vector) list) list \<Rightarrow> Vector
     \<Rightarrow> error + ((vert list \<times> (Vector \<times> Vector) list) list \<times> Vector)" where
  "offset_infos_loop bm vec_upward vert_mirror_pairs follow_face edge_rail er_only_end
       threshold [] offset_infos normal_fallback = Inr (offset_infos, normal_fallback)"
| "offset_infos_loop bm vec_upward vert_mirror_pairs follow_face edge_rail er_only_end
       threshold (lp # loops) offset_infos normal_fallback =
     ebind (get_directions bm lp vec_upward normal_fallback vert_mirror_pairs
              follow_face edge_rail er_only_end threshold)
       (\<lambda>(verts, directions, normal_fallback).
          offset_infos_loop bm vec_upward vert_mirror_pairs follow_face edge_rail er_only_end
            threshold loops
            (if verts \<noteq> [] then offset_infos @ [(verts, directions)] else offset_infos)
            normal_fallback)"

text \<open>
  Lines 602 to 637 of \<open>get_offset_infos\<close>: loop extraction, the directions of every loop
  and the saving of the caches.
\<close>

definition solve_loops ::
  "OffsetEdges \<Rightarrow> bmesh \<Rightarrow> (vert \<times> mirror_plane) list option \<Rightarrow> edge list \<Rightarrow> string list
     \<Rightarrow> Vector \<Rightarrow> error + (offset_result \<times> OffsetEdges \<times> string list \<times> Vector)" where
  "solve_loops self bm vert_mirror_pairs set_edges_orig reports z_up =
     ebind (collect_loops bm set_edges_orig) (\<lambda>loops.
       case loops of
         None \<Rightarrow>
           Inr (Failure, self,
                reports @ [''Overlap detected. Select non-overlap edge loops''], z_up)
       | Some loops \<Rightarrow>
           (let vec_upward = normalized (vadd (vadd X_UP Y_UP) z_up)
            in ebind (offset_infos_loop bm vec_upward vert_mirror_pairs
                        (op_follow_face self) (op_edge_rail self)
                        (op_edge_rail_only_end self) (op_threshold self)
                        loops [] z_up)
                 (\<lambda>(offset_infos, z_up).
                    Inr (Computed offset_infos set_edges_orig,
                         self\<lparr>op_cache_offset_infos :=
                                Some (map (\<lambda>(verts, directions).
                                        (map (vert_index bm) verts, directions))
                                      offset_infos),
                              op_cache_edges_orig_ixs :=
                                Some (map (edge_index bm) set_edges_orig)\<rparr>,
                         reports, z_up))))"

text \<open>
  \<open>get_offset_infos\<close>: the result, the instance with its caches, the warnings reported
  and the value of the module-level \<open>Z_UP\<close> afterwards.
\<close>

definition get_offset_infos ::
  "OffsetEdges \<Rightarrow> bmesh \<Rightarrow> edit_object \<Rightarrow> Vector
     \<Rightarrow> error + (offset_result \<times> OffsetEdges \<times> string list \<times> Vector)" where
  "get_offset_infos self bm ob z_up =
     (if op_caches_valid self \<and> op_cache_offset_infos self \<noteq> None
      then Inr (UseCache, self, [], z_up)
      else (case collect_edges bm of
              None \<Rightarrow> Inr (Failure, self, [''No edges selected.''], z_up)
            | Some set_edges_orig \<Rightarrow>
                ebind (if op_mirror_modifier self
                       then (let mirror_planes = collect_mirror_planes ob z_up
                             in ebind (get_vert_mirror_pairs bm set_edges_orig mirror_planes)
                                  (\<lambda>(vert_mirror_pairs, set_edges_orig).
                                     Inr (vert_mirror_pairs, set_edges_orig,
                                          if set_edges_orig = []
                                          then [''All selected edges are on mirror planes.'']
                                          else [])))
                       else Inr (None, set_edges_orig, []))
                  (\<lambda>(vert_mirror_pairs, set_edges_orig, reports).
                     solve_loops self bm vert_mirror_pairs set_edges_orig reports z_up)))"

subsection \<open>The host and the offset applicator\<close>

text \<open>
  The operations of Blender that change the mesh are parameters: \<open>extrude_edge_only\<close>
  is \<open>bmesh.ops.extrude_edge_only(bm, edges=...)['geom']\<close> with the mesh afterwards,
  \<open>delete_geom\<close> is \<open>bmesh.ops.delete(bm, geom=..., context=2)\<close>, and \<open>select_set\<close> is
  the assignment \<open>elem.select = flag\<close>.
\<close>

record host =
  extrude_edge_only :: "bmesh \<Rightarrow> edge list \<Rightarrow> bmesh \<times> elem list"
  delete_geom :: "bmesh \<Rightarrow> elem list \<Rightarrow> bmesh"
  select_set :: "bmesh \<Rightarrow> elem \<Rightarrow> bool \<Rightarrow> bmesh"

text \<open>The dict \<open>geom\<close> of \<open>extrude_edges\<close>, with its four sets.\<close>

record geom =
  g_verts :: "elem list"
  g_edges :: "elem list"
  g_faces :: "elem list"
  g_side :: "elem list"

definition extrude_edges :: "host \<Rightarrow> bmesh \<Rightarrow> edge list \<Rightarrow> error + (bmesh \<times> geom)" where
  "extrude_edges h bm edges_orig =
     (let (bm, extruded) = extrude_edge_only h bm edges_orig;
          n_edges = int (length edges_orig);
          n_faces = n_edges;
          n_verts = int (length extruded) - n_edges - n_faces;
          verts = remdups (py_slice extruded 0 n_verts);
          edges = remdups (py_slice extruded n_verts (n_verts + n_edges));
          faces = remdups (py_slice extruded (n_verts + n_edges) (int (length extruded)))
      in ebind (emap (\<lambda>v. ebind (the_vert v) (\<lambda>v. Inr (vert_link_edges bm v))) verts)
           (\<lambda>link_edges.
              Inr (bm, \<lparr>g_verts = verts, g_edges = edges, g_faces = faces,
                        g_side = remdups (filter (\<lambda>e. e \<notin> set edges)
                                   (map Edge (concat link_edges)))\<rparr>)))"

text \<open>
  The first loop of \<open>move_verts\<close>: for each vertex the other end of its first link edge
  that is a side edge; a vertex without one contributes nothing.
\<close>

fun verts_ex_loop :: "bmesh \<Rightarrow> elem list \<Rightarrow> vert list \<Rightarrow> vert option list" where
  "verts_ex_loop bm geom_s [] = []"
| "verts_ex_loop bm geom_s (v # verts) =
     (case find (\<lambda>e. Edge e \<in> set geom_s) (vert_link_edges bm v) of
        None \<Rightarrow> verts_ex_loop bm geom_s verts
      | Some e \<Rightarrow> other_vert bm e v # verts_ex_loop bm geom_s verts)"

text \<open>The second loop of \<open>move_verts\<close>: \<open>v.co += width * vec_tan + depth * vec_up\<close>.\<close>

fun move_loop ::
  "real \<Rightarrow> real \<Rightarrow> (vert option \<times> Vector \<times> Vector) list \<Rightarrow> bmesh \<Rightarrow> error + bmesh" where
  "move_loop width depth [] bm = Inr bm"
| "move_loop width depth ((None, d) # rest) bm = Inl AttributeError"
| "move_loop width depth ((Some v, vec_tan, vec_up) # rest) bm =
     move_loop width depth rest
       (bm\<lparr>vert_co := (vert_co bm)
              (v := vadd (vert_co bm v) (vadd (smul width vec_tan) (smul depth vec_up)))\<rparr>)"

definition move_verts ::
  "real \<Rightarrow> real \<Rightarrow> vert list \<Rightarrow> (Vector \<times> Vector) list \<Rightarrow> geom option \<Rightarrow> bmesh
     \<Rightarrow> error + bmesh" where
  "move_verts width depth verts directions geom_ex bm =
     (let verts = (case geom_ex of
                     Some g \<Rightarrow> verts_ex_loop bm (g_side g) verts
                   | None \<Rightarrow> map Some verts)
      in move_loop width depth (zip verts directions) bm)"

definition clean :: "host \<Rightarrow> bmesh \<Rightarrow> geometry_mode \<Rightarrow> edge list \<Rightarrow> geom option \<Rightarrow> bmesh" where
  "clean h bm mode edges_orig geom_ex =
     (let bm = fold (\<lambda>f bm. select_set h bm (Face f) False) (bm_faces bm) bm
      in case geom_ex of
           Some g \<Rightarrow>
             (let bm = fold (\<lambda>e bm. select_set h bm e True) (g_edges g) bm
              in if mode = Offset then delete_geom h bm (g_side g @ g_faces g) else bm)
         | None \<Rightarrow> fold (\<lambda>e bm. select_set h bm (Edge e) True) edges_orig bm)"

fun move_all ::
  "real \<Rightarrow> real \<Rightarrow> geom option \<Rightarrow> (vert list \<times> (Vector \<times> Vector) list) list \<Rightarrow> bmesh
     \<Rightarrow> error + bmesh" where
  "move_all width depth geom_ex [] bm = Inr bm"
| "move_all width depth geom_ex ((verts, directions) # rest) bm =
     ebind (move_verts width depth verts directions geom_ex bm)
       (move_all width depth geom_ex rest)"

text \<open>
  \<open>do_offset_and_free\<close>: the mesh written back by \<open>bm.to_mesh(me)\<close> and the instance
  afterwards. Without \<open>offset_infos\<close> the vertices and edges are looked up by the cached
  indices in \<open>tuple(bm.verts)\<close> and \<open>tuple(bm.edges)\<close>.
\<close>

definition do_offset_and_free ::
  "host \<Rightarrow> OffsetEdges \<Rightarrow> bmesh
     \<Rightarrow> (vert list \<times> (Vector \<times> Vector) list) list option \<Rightarrow> edge list option
     \<Rightarrow> error + (bmesh \<times> OffsetEdges)" where
  "do_offset_and_free h self bm offset_infos set_edges_orig =
     ebind (case offset_infos of
              None \<Rightarrow>
                (case op_cache_edges_orig_ixs self of
                   None \<Rightarrow> Inl TypeError
                 | Some ixs \<Rightarrow>
                     ebind (emap (py_index (bm_edges bm)) ixs) (\<lambda>edges_orig.
                     case op_cache_offset_infos self of
                       None \<Rightarrow> Inl TypeError
                     | Some cache \<Rightarrow>
                         ebind (emap (\<lambda>(ix_vs, directions).
                                        ebind (emap (py_index (bm_verts bm)) ix_vs)
                                          (\<lambda>verts. Inr (verts, directions))) cache)
                           (\<lambda>verts_directions. Inr (verts_directions, edges_orig))))
            | Some infos \<Rightarrow>
                (case set_edges_orig of
                   None \<Rightarrow> Inl TypeError
                 | Some edges_orig \<Rightarrow> Inr (infos, edges_orig)))
       (\<lambda>(verts_directions, edges_orig).
     let (width, depth) =
           (if op_depth_mode self = Angle
            then (let w = (if \<not> op_flip_width self then op_width self else - op_width self);
                      ang = (if \<not> op_flip_angle self then op_angle self else - op_angle self)
                  in (w * cos ang, w * sin ang))
            else (if \<not> op_flip_width self then op_width self else - op_width self,
                  if \<not> op_flip_depth self then op_depth self else - op_depth self)) in
     ebind (if op_geometry_mode self = Move then Inr (bm, None)
            else ebind (extrude_edges h bm edges_orig) (\<lambda>(bm, g). Inr (bm, Some g)))
       (\<lambda>(bm, geom_ex).
     ebind (move_all width depth geom_ex verts_directions bm) (\<lambda>bm.
     Inr (clean h bm (op_geometry_mode self) edges_orig geom_ex,
          self\<lparr>op_caches_valid := False\<rparr>))))"

datatype status = FINISHED | CANCELLED

text \<open>
  \<open>execute\<close> on the mesh \<open>bm\<close> read from the edit object: the returned status, the mesh
  data of the object afterwards (unchanged when cancelled), the instance, the warnings
  and the value of \<open>Z_UP\<close>.
\<close>

definition execute ::
  "host \<Rightarrow> OffsetEdges \<Rightarrow> edit_object \<Rightarrow> bmesh \<Rightarrow> Vector
     \<Rightarrow> error + (status \<times> bmesh \<times> OffsetEdges \<times> string list \<times> Vector)" where
  "execute h self ob bm z_up =
     ebind (get_offset_infos self bm ob z_up) (\<lambda>(res, self, reports, z_up).
       case res of
         Failure \<Rightarrow> Inr (CANCELLED, bm, self, reports, z_up)
       | UseCache \<Rightarrow>
           ebind (do_offset_and_free h self bm None None) (\<lambda>(bm, self).
             Inr (FINISHED, bm, self, reports, z_up))
       | Computed offset_infos edges_orig \<Rightarrow>
           ebind (do_offset_and_free h self bm (Some offset_infos) (Some edges_orig))
             (\<lambda>(bm, self). Inr (FINISHED, bm, self, reports, z_up)))"

text \<open>What a run of \<open>execute\<close> shows: the exception, or the status and the mesh.\<close>

definition outcome ::
  "error + (status \<times> bmesh \<times> OffsetEdges \<times> string list \<times> Vector) \<Rightarrow> error + (status \<times> bmesh)"
  where
  "outcome r = (case r of Inl err \<Rightarrow> Inl err | Inr (st, bm, rest) \<Rightarrow> Inr (st, bm))"

text \<open>The status of a run of \<open>execute\<close>, None when it raised.\<close>

definition status_of ::
  "error + (status \<times> bmesh \<times> OffsetEdges \<times> string list \<times> Vector) \<Rightarrow> status option" where
  "status_of r = (case r of Inl err \<Rightarrow> None | Inr (st, rest) \<Rightarrow> Some st)"

text \<open>
  The status of a run of \<open>execute\<close> and the coordinates of the vertices of the mesh it
  leaves, in the order of \<open>bm.verts\<close>.
\<close>

definition coords ::
  "error + (status \<times> bmesh \<times> OffsetEdges \<times> string list \<times> Vector)
     \<Rightarrow> error + (status \<times> Vector list)" where
  "coords r = (case r of Inl err \<Rightarrow> Inl err
               | Inr (st, bm, rest) \<Rightarrow> Inr (st, map (vert_co bm) (bm_verts bm)))"

subsection \<open>Example meshes\<close>

text \<open>One selected edge with three selected faces around it (a non-manifold fan).\<close>

definition fan_mesh :: bmesh where
  "fan_mesh = \<lparr> bm_verts = [0, 1, 2, 3, 4], bm_edges = [0], bm_faces = [0, 1, 2],
     vert_co = (\<lambda>v. ZERO_VEC), vert_index = int, vert_link_edges = (\<lambda>v. [0]),
     edge_verts = (\<lambda>e. (0, 1)), edge_index = int, edge_select = (\<lambda>e. True),
     edge_hide = (\<lambda>e. False), edge_link_faces = (\<lambda>e. [0, 1, 2]),
     face_verts = (\<lambda>f. [0, 1, f + 2]), face_normal = (\<lambda>f. Z_UP),
     face_select = (\<lambda>f. True), face_hide = (\<lambda>f. False) \<rparr>"

text \<open>
  A triangle 0-1-2 with a tail from vertex 0 to vertex 3: edges 0 = (0, 1), 1 = (1, 2),
  2 = (2, 0), 3 = (0, 3). Vertex 0 touches edges 0, 2 and 3.
\<close>

definition lasso_mesh :: bmesh where
  "lasso_mesh = \<lparr> bm_verts = [0, 1, 2, 3], bm_edges = [0, 1, 2, 3], bm_faces = [],
     vert_co = (\<lambda>v. if v = 0 then Vector 0 0 0 else if v = 1 then Vector 1 0 0
                     else if v = 2 then Vector 0 1 0 else Vector (-1) (-1) 0),
     vert_index = int,
     vert_link_edges = (\<lambda>v. if v = 0 then [0, 2, 3] else if v = 1 then [0, 1]
                     else if v = 2 then [1, 2] else [3]),
     edge_verts = (\<lambda>e. if e = 0 then (0, 1) else if e = 1 then (1, 2)
                     else if e = 2 then (2, 0) else (0, 3)),
     edge_index = int, edge_select = (\<lambda>e. True),
     edge_hide = (\<lambda>e. False), edge_link_faces = (\<lambda>e. []),
     face_verts = (\<lambda>f. []), face_normal = (\<lambda>f. ZERO_VEC),
     face_select = (\<lambda>f. False), face_hide = (\<lambda>f. False) \<rparr>"

text \<open>A triangle 0-1-2 and, apart from it, the single edge 3 = (3, 4).\<close>

definition tri_mesh :: bmesh where
  "tri_mesh = \<lparr> bm_verts = [0, 1, 2, 3, 4], bm_edges = [0, 1, 2, 3], bm_faces = [],
     vert_co = (\<lambda>v. if v = 0 then Vector 0 0 0 else if v = 1 then Vector 1 0 0
                     else if v = 2 then Vector 0 1 0 else if v = 3 then Vector 0 0 1
                     else Vector 0 0 2),
     vert_index = int,
     vert_link_edges = (\<lambda>v. if v = 0 then [0, 2] else if v = 1 then [0, 1]
                     else if v = 2 then [1, 2] else [3]),
     edge_verts = (\<lambda>e. if e = 0 then (0, 1) else if e = 1 then (1, 2)
                     else if e = 2 then (2, 0) else (3, 4)),
     edge_index = int, edge_select = (\<lambda>e. True),
     edge_hide = (\<lambda>e. False), edge_link_faces = (\<lambda>e. []),
     face_verts = (\<lambda>f. []), face_normal = (\<lambda>f. ZERO_VEC),
     face_select = (\<lambda>f. False), face_hide = (\<lambda>f. False) \<rparr>"

text \<open>
  The loop edge 0 from vertex 0 = (0, 0, 0) to vertex 1 = (1, 0, 0), the only selected
  edge, and the unselected edge 1 from vertex 0 to vertex 2 = (3, -4, 0). Vertex 0 lies on
  the plane x = 0; edge 0 lies in the planes y = 0 and z = 0.
\<close>

definition rail_mesh :: bmesh where
  "rail_mesh = \<lparr> bm_verts = [0, 1, 2], bm_edges = [0, 1], bm_faces = [],
     vert_co = (\<lambda>v. if v = 0 then Vector 0 0 0 else if v = 1 then Vector 1 0 0
                     else Vector 3 (-4) 0),
     vert_index = int,
     vert_link_edges = (\<lambda>v. if v = 0 then [0, 1] else if v = 1 then [0] else [1]),
     edge_verts = (\<lambda>e. if e = 0 then (0, 1) else (0, 2)),
     edge_index = int, edge_select = (\<lambda>e. e = 0),
     edge_hide = (\<lambda>e. False), edge_link_faces = (\<lambda>e. []),
     face_verts = (\<lambda>f. []), face_normal = (\<lambda>f. ZERO_VEC),
     face_select = (\<lambda>f. False), face_hide = (\<lambda>f. False) \<rparr>"

text \<open>The mirror plane x = 0 with merge limit 0.001.\<close>

definition x_plane :: mirror_plane where
  "x_plane = (ZERO_VEC, X_UP, 1 / 1000)"

text \<open>
  An edit object with one mirror modifier, merge enabled with limit 0.001, no mirror
  object, on the given axes.
\<close>

definition mirror_ob :: "bool \<Rightarrow> bool \<Rightarrow> bool \<Rightarrow> edit_object" where
  "mirror_ob ux uy uz =
     \<lparr>modifiers = [\<lparr>m_type = ''MIRROR'', use_mirror_merge = True, merge_threshold = 1 / 1000,
                     mirror_object = None, use_x = ux, use_y = uy, use_z = uz\<rparr>]\<rparr>"

text \<open>An operator instance with the default value of every property.\<close>

definition default_op :: OffsetEdges where
  "default_op = \<lparr>op_geometry_mode = Offset, op_width = 2 / 10, op_flip_width = False,
     op_depth = 0, op_flip_depth = False, op_depth_mode = Angle, op_angle = 0,
     op_flip_angle = False, op_follow_face = False, op_mirror_modifier = False,
     op_edge_rail = False, op_edge_rail_only_end = False, op_threshold = 1 / 10000,
     op_caches_valid = False, op_cache_offset_infos = None, op_cache_edges_orig_ixs = None\<rparr>"

text \<open>
  A spike along the z axis: edge 0 from vertex 0 = (0, 0, 0) up to vertex 1 = (0, 0, 2) and
  edge 1 from vertex 1 back down to vertex 2 = (0, 0, 1), both selected, no faces.
\<close>

definition spike_mesh :: bmesh where
  "spike_mesh = \<lparr> bm_verts = [0, 1, 2], bm_edges = [0, 1], bm_faces = [],
     vert_co = (\<lambda>v. if v = 0 then Vector 0 0 0 else if v = 1 then Vector 0 0 2
                     else Vector 0 0 1),
     vert_index = int,
     vert_link_edges = (\<lambda>v. if v = 0 then [0] else if v = 1 then [0, 1] else [1]),
     edge_verts = (\<lambda>e. if e = 0 then (0, 1) else (1, 2)),
     edge_index = int, edge_select = (\<lambda>e. True),
     edge_hide = (\<lambda>e. False), edge_link_faces = (\<lambda>e. []),
     face_verts = (\<lambda>f. []), face_normal = (\<lambda>f. ZERO_VEC),
     face_select = (\<lambda>f. False), face_hide = (\<lambda>f. False) \<rparr>"

text \<open>
  Two separate selected edges in the plane z = 0: edge 0 from vertex 0 = (0, 0, 0) to
  vertex 1 = (1, 0, 0) with no face, and edge 1 from vertex 2 = (0, 5, 0) to
  vertex 3 = (1, 5, 0), a side of the unselected triangle 2, 4, 3 with vertex 4 = (0, 6, 0)
  whose normal is (0, 0, -1). Edges 2 and 3 are the other sides of the triangle.
\<close>

definition twin_mesh :: bmesh where
  "twin_mesh = \<lparr> bm_verts = [0, 1, 2, 3, 4], bm_edges = [0, 1, 2, 3], bm_faces = [0],
     vert_co = (\<lambda>v. if v = 0 then Vector 0 0 0 else if v = 1 then Vector 1 0 0
                     else if v = 2 then Vector 0 5 0 else if v = 3 then Vector 1 5 0
                     else Vector 0 6 0),
     vert_index = int,
     vert_link_edges = (\<lambda>v. if v = 0 then [0] else if v = 1 then [0]
                             else if v = 2 then [1, 2] else if v = 3 then [1, 3] else [2, 3]),
     edge_verts = (\<lambda>e. if e = 0 then (0, 1) else if e = 1 then (2, 3)
                        else if e = 2 then (2, 4) else (4, 3)),
     edge_index = int, edge_select = (\<lambda>e. e < 2),
     edge_hide = (\<lambda>e. False), edge_link_faces = (\<lambda>e. if e = 0 then [] else [0]),
     face_verts = (\<lambda>f. [2, 4, 3]), face_normal = (\<lambda>f. Vector 0 0 (- 1)),
     face_select = (\<lambda>f. False), face_hide = (\<lambda>f. False) \<rparr>"

text \<open>The default instance in move mode with \<open>follow_face\<close> enabled.\<close>

definition twin_op :: OffsetEdges where
  "twin_op = default_op\<lparr>op_geometry_mode := Move, op_follow_face := True\<rparr>"

text \<open>
  The two cache attributes after the first full computation on the twin mesh, and the
  instance holding them.
\<close>

definition twin_cache :: "(int list \<times> (Vector \<times> Vector) list) list" where
  "twin_cache =
     [([1, 0], [(Vector 0 1 0, Vector 0 0 1), (Vector 0 1 0, Vector 0 0 1)]),
      ([3, 2], [(Vector 0 (- 1) 0, Vector 0 0 (- 1)), (Vector 0 (- 1) 0, Vector 0 0 (- 1))])]"

definition twin_filled :: OffsetEdges where
  "twin_filled = twin_op\<lparr>op_cache_offset_infos := Some twin_cache,
                          op_cache_edges_orig_ixs := Some [0, 1]\<rparr>"

subsection \<open>Notions used in the proofs\<close>

text \<open>
  The \<open>index\<close> attribute of every vertex and edge is its position in \<open>bm.verts\<close> and
  \<open>bm.edges\<close>, and the ends of every edge are vertices of the mesh: the state of a BMesh
  that \<open>from_mesh\<close> has just filled.
\<close>

definition index_valid :: "bmesh \<Rightarrow> bool" where
  "index_valid bm =
     (map (vert_index bm) (bm_verts bm) = map int [0 ..< length (bm_verts bm)]
      \<and> map (edge_index bm) (bm_edges bm) = map int [0 ..< length (bm_edges bm)]
      \<and> list_all (\<lambda>e. fst (edge_verts bm e) \<in> set (bm_verts bm)
                       \<and> snd (edge_verts bm e) \<in> set (bm_verts bm)) (bm_edges bm))"

text \<open>The vertices that occur in a loop.\<close>

definition loop_verts :: "elem list \<Rightarrow> vert set" where
  "loop_verts lp = {v. Vert v \<in> set lp}"

text \<open>The ends of the edges of a set.\<close>

definition endpoints :: "bmesh \<Rightarrow> edge set \<Rightarrow> vert set" where
  "endpoints bm S = (\<lambda>e. fst (edge_verts bm e)) ` S \<union> (\<lambda>e. snd (edge_verts bm e)) ` S"

text \<open>
  \<open>post m P\<close>: whenever the computation \<open>m\<close> returns a value, the value satisfies \<open>P\<close>.
\<close>

definition post :: "error + 'a \<Rightarrow> ('a \<Rightarrow> bool) \<Rightarrow> bool" where
  "post m P = (\<forall>r. m = Inr r \<longrightarrow> P r)"

text \<open>The value \<open>get_offset_infos\<close> stores in \<open>_cache_offset_infos\<close>.\<close>

definition cache_of ::
  "bmesh \<Rightarrow> (vert list \<times> (Vector \<times> Vector) list) list \<Rightarrow> (int list \<times> (Vector \<times> Vector) list) list"
  where
  "cache_of bm infos = map (\<lambda>(verts, directions). (map (vert_index bm) verts, directions)) infos"

text \<open>
  What holds of a computed result of \<open>get_offset_infos\<close>: its edges are edges of the mesh,
  its vertices are ends of edges of the mesh, and the instance holds the two caches.
\<close>

definition computed_ok ::
  "OffsetEdges \<Rightarrow> bmesh \<Rightarrow> offset_result \<times> OffsetEdges \<times> string list \<times> Vector \<Rightarrow> bool" where
  "computed_ok self bm r =
     (case fst r of
        Computed infos edges \<Rightarrow>
          set edges \<subseteq> set (bm_edges bm)
          \<and> (\<forall>p \<in> set infos. set (fst p) \<subseteq> endpoints bm (set (bm_edges bm)))
          \<and> fst (snd r) = self\<lparr>op_cache_offset_infos := Some (cache_of bm infos),
                                  op_cache_edges_orig_ixs := Some (map (edge_index bm) edges)\<rparr>
      | _ \<Rightarrow> True)"

text \<open>A result of \<open>get_offset_infos\<close> with \<open>width\<close> and \<open>depth\<close> of the instance replaced.\<close>

definition with_width_depth ::
  "real \<Rightarrow> real \<Rightarrow> offset_result \<times> OffsetEdges \<times> string list \<times> Vector
     \<Rightarrow> offset_result \<times> OffsetEdges \<times> string list \<times> Vector" where
  "with_width_depth w d r =
     (fst r, (fst (snd r))\<lparr>op_width := w, op_depth := d\<rparr>, snd (snd r))"

text \<open>
  A host whose selection flags are plain booleans and which creates and deletes nothing.
\<close>

definition flag_host :: host where
  "flag_host =
     \<lparr>extrude_edge_only = (\<lambda>bm edges. (bm, [])),
      delete_geom = (\<lambda>bm geom. bm),
      select_set = (\<lambda>bm el flag.
        case el of
          Vert v \<Rightarrow> bm
        | Edge e \<Rightarrow> bm\<lparr>edge_select := (edge_select bm)(e := flag)\<rparr>
        | Face f \<Rightarrow> bm\<lparr>face_select := (face_select bm)(f := flag)\<rparr>)\<rparr>"

section \<open>Properties\<close>

subsection \<open>The single-precision pi\<close>

text \<open>
  The cosine lies between the partial sums of its series; at half of \<open>M_PI_F\<close> it is
  negative, so \<open>M_PI_F\<close> is above pi, and the sine of \<open>M_PI_F\<close> is a small negative number.
\<close>

lemma cos_upper_18:
  assumes "0 < (x::real)"
  shows "cos x \<le> (\<Sum>m<18. cos_coeff m * x ^ m) + x ^ 18 / fact 18"
proof -
  from Maclaurin_cos_expansion2 [of x 18] assms obtain t where
    t: "cos x = (\<Sum>m<18. cos_coeff m * x ^ m)
                  + (cos (t + 1/2 * real 18 * pi) / fact 18) * x ^ 18"
    by auto
  have "cos (t + 1/2 * real 18 * pi) \<le> 1" by simp
  then have "(cos (t + 1/2 * real 18 * pi) / fact 18) * x ^ 18 \<le> (1 / fact 18) * x ^ 18"
    using assms by (intro mult_right_mono divide_right_mono) auto
  with t show ?thesis by simp
qed

lemma cos_lower_16:
  assumes "0 < (x::real)"
  shows "(\<Sum>m<16. cos_coeff m * x ^ m) - x ^ 16 / fact 16 \<le> cos x"
proof -
  from Maclaurin_cos_expansion2 [of x 16] assms obtain t where
    t: "cos x = (\<Sum>m<16. cos_coeff m * x ^ m)
                  + (cos (t + 1/2 * real 16 * pi) / fact 16) * x ^ 16"
    by auto
  have "- 1 \<le> cos (t + 1/2 * real 16 * pi)" by simp
  then have "(- 1 / fact 16) * x ^ 16 \<le> (cos (t + 1/2 * real 16 * pi) / fact 16) * x ^ 16"
    using assms by (intro mult_right_mono divide_right_mono) auto
  with t show ?thesis by simp
qed

lemma cos_half_M_PI_F: "cos (M_PI_F / 2) < 0"
proof -
  have "cos (13176795 / 8388608 :: real)
          \<le> (\<Sum>m<18. cos_coeff m * (13176795 / 8388608) ^ m)
              + (13176795 / 8388608) ^ 18 / fact 18"
    by (rule cos_upper_18) simp
  also have "\<dots> < 0"
    by (simp add: lessThan_nat_numeral cos_coeff_def fact_numeral power_divide)
  finally show ?thesis by (simp add: M_PI_F_def)
qed

lemma pi_less_M_PI_F: "pi < M_PI_F"
proof (rule ccontr)
  assume "\<not> pi < M_PI_F"
  then have "M_PI_F / 2 \<le> pi / 2" by simp
  moreover have "- (pi / 2) \<le> M_PI_F / 2" using pi_ge_two by (simp add: M_PI_F_def)
  ultimately have "0 \<le> cos (M_PI_F / 2)" by (rule cos_ge_zero [rotated])
  with cos_half_M_PI_F show False by simp
qed

lemma cos_below_half_pi: "0 < cos (157079632 / 100000000 :: real)"
proof -
  have "0 < (\<Sum>m<16. cos_coeff m * (157079632 / 100000000 :: real) ^ m)
              - (157079632 / 100000000) ^ 16 / fact 16"
    by (simp add: lessThan_nat_numeral cos_coeff_def fact_numeral power_divide)
  also have "\<dots> \<le> cos (157079632 / 100000000 :: real)"
    by (rule cos_lower_16) simp
  finally show ?thesis .
qed

lemma pi_lower: "314159264 / 100000000 < pi"
proof (rule ccontr)
  assume "\<not> 314159264 / 100000000 < pi"
  then have "pi / 2 \<le> 157079632 / 100000000" by simp
  moreover have "(157079632 / 100000000 :: real) \<le> pi" using pi_ge_two by simp
  ultimately have "cos (157079632 / 100000000 :: real) \<le> cos (pi / 2)"
    using pi_ge_two by (intro cos_monotone_0_pi_le) simp_all
  with cos_below_half_pi show False by simp
qed

lemma sin_M_PI_F: "sin M_PI_F < 0" "- (11 / 100000000) < sin M_PI_F"
proof -
  have "M_PI_F < 2 * pi" using pi_ge_two by (simp add: M_PI_F_def)
  with pi_less_M_PI_F show "sin M_PI_F < 0" by (rule sin_lt_zero)
  have "sin (M_PI_F - pi) \<le> M_PI_F - pi"
    using pi_less_M_PI_F by (intro sin_x_le_x) simp
  moreover have "sin (M_PI_F - pi) = - sin M_PI_F" by (simp add: sin_diff)
  ultimately show "- (11 / 100000000) < sin M_PI_F"
    using pi_lower by (simp add: M_PI_F_def)
qed

lemma saacos_ends: "saacos (- 1) = M_PI_F" "saacos 1 = 0" "saacos 0 = pi / 2"
  by (simp_all add: saacos_def)

lemma M_PI_F_straight:
  "\<not> M_PI_F < 1 / 10000" "\<not> M_PI_F * 10000 < 1" "ANGLE_180 - 1 / 10000 < M_PI_F"
  using pi_less_M_PI_F by (simp_all add: ANGLE_180_def M_PI_F_def)

subsection \<open>Tangent and factor\<close>

text \<open>
  C3 (the code departs from the claim). \<open>calc_tangent\<close> normalizes \<open>vec_right2d\<close> twice and
  \<open>vec_left2d\<close> never: for up = (0, 0, 1), right = (1, 0, 0) and the unit vector
  left = (0, 3/5, 4/5), the left vector handed to \<open>get_corner_type\<close> is (0, 3/5, 0),
  which is neither the zero vector nor a unit vector.
\<close>

theorem calc_tangent_left2d_not_normalized:
  "calc_tangent_2d (Vector 0 0 1) (Vector 1 0 0) (Vector 0 (3/5) (4/5))
     = (Vector 1 0 0, Vector 0 (3/5) 0)
   \<and> is_unit (Vector 0 (3/5) (4/5))
   \<and> Vector 0 (3/5) 0 \<noteq> ZERO_VEC
   \<and> \<not> is_unit (Vector 0 (3/5) 0)"
  by (simp add: calc_tangent_2d_def project_def normalized_def vsub_def smul_def dot_def
      vec_length_def is_unit_def ZERO_VEC_def Let_def power2_eq_square)

subsection \<open>collect_edges\<close>

lemma link_faces_loop_count:
  "co < 2 \<Longrightarrow> link_faces_loop bm fs co \<longleftrightarrow> co + length (filter (face_select bm) fs) < 2"
  by (induction fs arbitrary: co) auto

lemma collect_edges_loop_set:
  "set (collect_edges_loop bm es acc) =
     set acc \<union> {e \<in> set es. edge_select bm e \<and> selected_faces bm e < 2}"
  by (induction es arbitrary: acc)
     (auto simp: set_add_def selected_faces_def link_faces_loop_count)

lemma collect_edges_loop_distinct:
  "distinct acc \<Longrightarrow> distinct (collect_edges_loop bm es acc)"
  by (induction es arbitrary: acc) (auto simp: set_add_def)

text \<open>
  C6 (as amended). \<open>collect_edges\<close> returns exactly the set of edges that are selected and
  have fewer than two selected adjacent faces, and returns None exactly when that set is
  empty.
\<close>

theorem collect_edges_qualifies:
  "(case collect_edges bm of
      None \<Rightarrow> qualifies bm = {}
    | Some s \<Rightarrow> set s = qualifies bm \<and> distinct s \<and> s \<noteq> [])"
  using collect_edges_loop_set [of bm "bm_edges bm" "[]"]
        collect_edges_loop_distinct [of "[]" bm "bm_edges bm"]
  by (auto simp: collect_edges_def qualifies_def Let_def)

text \<open>
  C6 as stated fails on an edge with three selected faces: its count of selected faces
  is 3, not 2, so the specification's set contains it, and \<open>collect_edges\<close> returns None.
\<close>

theorem collect_edges_three_faces_excluded:
  "selected_faces fan_mesh 0 = 3 \<and> 0 \<in> qualifies_spec fan_mesh
   \<and> collect_edges fan_mesh = None"
  by (simp add: qualifies_spec_def selected_faces_def fan_mesh_def collect_edges_def
      set_add_def)

subsection \<open>collect_loops\<close>

lemma edges_of_append: "edges_of (xs @ ys) = edges_of xs @ edges_of ys"
  by (induction xs rule: edges_of.induct) auto

lemma edges_of_rev: "edges_of (rev xs) = rev (edges_of xs)"
  by (induction xs rule: edges_of.induct) (auto simp: edges_of_append)

lemma grow_mset:
  "grow bm s lp v_left v_right reverse = Inr (Some (lp', s')) \<Longrightarrow>
     mset (edges_of lp') + mset s' = mset (edges_of lp) + mset s"
proof (induction bm s lp v_left v_right reverse rule: grow.induct)
  case (1 bm s lp v_left v_right reverse)
  from "1.prems" obtain r s1 where
    sc: "scan_link_edges (vert_link_edges bm v_right) None s = Some (r, s1)"
    by (subst (asm) grow.simps) (auto split: option.splits)
  show ?case
  proof (cases r)
    case None
    with sc have s1: "s1 = s" by (auto dest: scan_link_edges_none_same)
    show ?thesis
    proof (cases "v_right \<noteq> v_left \<and> \<not> reverse")
      case True
      with "1.prems" sc None
      have "grow bm s1 (rev lp) v_right v_left True = Inr (Some (lp', s'))"
        by (subst (asm) grow.simps) simp
      with "1.IH"(1) [OF sc refl None] True s1 show ?thesis
        by (simp add: edges_of_rev)
    next
      case False
      with "1.prems" sc None s1 show ?thesis
        by (subst (asm) grow.simps) (auto split: if_splits)
    qed
  next
    case (Some e)
    from sc Some have "e \<in> set s \<and> s1 = remove1 e s"
      by (auto dest: scan_link_edges_None)
    then have ms: "mset s = add_mset e (mset s1)" by simp
    from "1.prems" sc Some obtain v' where
      ov: "other_vert bm e v_right = Some v'" and
      g: "grow bm s1 (lp @ [Edge e, Vert v']) v_left v' reverse = Inr (Some (lp', s'))"
      by (subst (asm) grow.simps) (auto split: option.splits)
    from "1.IH"(2) [OF sc refl Some ov g] ms show ?thesis
      by (simp add: edges_of_append)
  qed
qed

lemma collect_loops_while_mset:
  "collect_loops_while bm s loops = Inr (Some loops') \<Longrightarrow>
     mset (concat (map edges_of loops')) = mset (concat (map edges_of loops)) + mset s"
proof (induction bm s loops rule: collect_loops_while.induct)
  case (1 bm loops)
  then show ?case by simp
next
  case (2 bm edge_start s loops)
  obtain v_left v_right where ev: "edge_verts bm edge_start = (v_left, v_right)"
    by (cases "edge_verts bm edge_start")
  let ?lp = "[Vert v_left, Edge edge_start, Vert v_right]"
  from "2.prems" ev obtain lp1 s1 where
    g: "grow bm s ?lp v_left v_right False = Inr (Some (lp1, s1))" and
    c: "collect_loops_while bm s1 (loops @ [lp1]) = Inr (Some loops')"
    by (auto split: sum.splits option.splits)
  from "2.IH" [OF refl ev [symmetric] refl g refl refl c]
  have "mset (concat (map edges_of loops')) =
          mset (concat (map edges_of (loops @ [lp1]))) + mset s1" .
  with grow_mset [OF g] show ?case by simp
qed

lemma tri_mesh_loops:
  "collect_loops tri_mesh [0, 1, 2, 3] =
     Inr (Some [[Vert 0, Edge 0, Vert 1, Edge 1, Vert 2, Edge 2, Vert 0],
                [Vert 4, Edge 3, Vert 3]])"
  by (simp add: collect_loops_def tri_mesh_def grow.simps other_vert_def)

text \<open>
  C7. When \<open>collect_loops\<close> returns a list of loops, the edges of the loops taken together
  are the edges of the input set, each exactly once: no edge is repeated within a loop or
  across loops, and no loop holds an edge from outside the set.
\<close>

theorem collect_loops_partition:
  assumes "distinct set_edges_orig"
    and "collect_loops bm set_edges_orig = Inr (Some loops)"
  shows "mset (concat (map edges_of loops)) = mset set_edges_orig
       \<and> distinct (concat (map edges_of loops))
       \<and> set (concat (map edges_of loops)) = set set_edges_orig"
proof -
  from assms(2) have m: "mset (concat (map edges_of loops)) = mset set_edges_orig"
    by (auto simp: collect_loops_def dest: collect_loops_while_mset)
  from m assms(1) have "distinct (concat (map edges_of loops))"
    by (metis mset_eq_imp_distinct_iff)
  moreover from m have "set (concat (map edges_of loops)) = set set_edges_orig"
    by (rule mset_eq_setD)
  ultimately show ?thesis using m by simp
qed

theorem collect_loops_partition_witness:
  "distinct [0, 1, 2, 3 :: nat]
   \<and> collect_loops tri_mesh [0, 1, 2, 3] =
       Inr (Some [[Vert 0, Edge 0, Vert 1, Edge 1, Vert 2, Edge 2, Vert 0],
                  [Vert 4, Edge 3, Vert 3]])
   \<and> set (concat (map edges_of [[Vert 0, Edge 0, Vert 1, Edge 1, Vert 2, Edge 2, Vert 0],
                                 [Vert 4, Edge 3, Vert 3]])) = set [0, 1, 2, 3]"
proof -
  have d: "distinct [0, 1, 2, 3 :: nat]" by simp
  from collect_loops_partition [OF d tri_mesh_loops] d tri_mesh_loops show ?thesis by blast
qed

text \<open>
  C5 (the code departs from the claim). In the lasso mesh vertex 0 has degree 3 within
  the edge set. When \<open>pop()\<close> delivers edge 0 = (0, 1) first, the chain runs 1, 2, back to
  0, finds only edge 3 left there and follows it: \<open>collect_loops\<close> returns one loop that
  passes through vertex 0 twice, not None. When \<open>pop()\<close> delivers the tail edge 3 first, the
  same set gives None.
\<close>

theorem collect_loops_lasso_not_none:
  "degree_in lasso_mesh [0, 1, 2, 3] 0 = 3
   \<and> collect_loops lasso_mesh [0, 1, 2, 3] =
       Inr (Some [[Vert 3, Edge 3, Vert 0, Edge 2, Vert 2, Edge 1, Vert 1, Edge 0, Vert 0]])
   \<and> collect_loops lasso_mesh [3, 0, 1, 2] = Inr None"
  by (simp add: degree_in_def collect_loops_def lasso_mesh_def grow.simps other_vert_def)

subsection \<open>Evaluation on the rail mesh\<close>

text \<open>
  Rewrite rules for running the definitions on concrete vectors, and the values of the
  stages of \<open>get_directions\<close> on the rail mesh.
\<close>


lemma ebind_simps [simp]: "ebind (Inr a) f = f a" "ebind (Inl e) f = Inl e"
  by (simp_all add: ebind_def)

lemma vec_simps [simp]:
  "vadd (Vector a b c) (Vector d e f) = Vector (a + d) (b + e) (c + f)"
  "vsub (Vector a b c) (Vector d e f) = Vector (a - d) (b - e) (c - f)"
  "smul k (Vector a b c) = Vector (k * a) (k * b) (k * c)"
  "vneg (Vector a b c) = Vector (- a) (- b) (- c)"
  "dot (Vector a b c) (Vector d e f) = a * d + b * e + c * f"
  "cross (Vector a b c) (Vector d e f) = Vector (b * f - c * e) (c * d - a * f) (a * e - b * d)"
  by (simp_all add: vadd_def vsub_def smul_def vneg_def dot_def cross_def)

lemmas vec_consts = X_UP_def Y_UP_def Z_UP_def ZERO_VEC_def

lemma sqrt_16_25: "sqrt (16 / 25) = 4 / 5"
  by (rule real_sqrt_unique) (simp_all add: power2_eq_square)

lemma sin_arccos_35: "sin (arccos (3 / 5)) = 4 / 5" "sin (arccos (- (3 / 5))) = 4 / 5"
  by (simp_all add: sin_arccos power2_eq_square sqrt_16_25)

lemma rail_pairs:
  "get_vert_mirror_pairs rail_mesh [0] [x_plane] = Inr (Some [(0, x_plane)], [0])"
  by (simp add: get_vert_mirror_pairs_def rail_mesh_def x_plane_def vec_consts)

lemma rail_mirror:
  "get_mirror_rail x_plane (Vector 0 0 1) = (Some (Vector 0 1 0), Vector 0 0 1)"
  by (simp add: get_mirror_rail_def x_plane_def vec_consts normalized_def project_def
      vec_length_def)

lemma rail_edge0: "get_edge_rail rail_mesh 0 [0] = Inr (Some (Vector 3 (- 4) 0))"
  by (simp add: get_edge_rail_def rail_mesh_def other_vert_def vec_consts)

lemma rail_edge1: "get_edge_rail rail_mesh (Suc 0) [0] = Inr None"
  by (simp add: get_edge_rail_def rail_mesh_def)

lemma rail_choose0:
  "choose_rail rail_mesh (Some [(0, x_plane)]) True False (1 / 10000) [0] 0 True
     (Vector 0 (- 1) 0) (Vector 0 0 1) (Vector 1 0 0) (Vector (- 1) 0 0) None None
   = Inr (Some (Vector 3 (- 4) 0), Vector 0 0 1)"
  by (simp add: choose_rail_def rail_mirror rail_edge0)

lemma rail_choose0_off:
  "choose_rail rail_mesh (Some [(0, x_plane)]) False False (1 / 10000) [0] 0 True
     (Vector 0 (- 1) 0) (Vector 0 0 1) (Vector 1 0 0) (Vector (- 1) 0 0) None None
   = Inr (Some (Vector 0 1 0), Vector 0 0 1)"
  by (simp add: choose_rail_def rail_mirror)

lemma rail_choose1:
  "choose_rail rail_mesh (Some [(0, x_plane)]) True False (1 / 10000) [0] (Suc 0) True
     (Vector 0 (- 1) 0) (Vector 0 0 1) (Vector 1 0 0) (Vector (- 1) 0 0) None None
   = Inr (None, Vector 0 0 1)"
  by (simp add: choose_rail_def rail_edge1)

lemma rail_normal:
  "calc_normal_from_verts rail_mesh [0, Suc 0] (Vector 0 0 1) = Inr (Vector 0 0 1, True)"
  by (simp add: calc_normal_from_verts_def rail_mesh_def newell_def normalized_def vec_consts)

lemma rail_tangent:
  "calc_tangent (Vector 0 0 1) (Vector 1 0 0) (Vector (- 1) 0 0) (1 / 10000) = Inr (Vector 0 (- 1) 0)"
  by (simp add: calc_tangent_def calc_tangent_2d_def project_def normalized_def
      vec_length_def vec_consts Let_def get_corner_type_def angle_def saacos_ends
      M_PI_F_straight)

lemma rail_apply:
  "apply_rail (Some (Vector 3 (- 4) 0)) (Vector 0 (- 1) 0) (Vector 0 0 1) = (Vector (3 / 5) (- (4 / 5)) 0, Vector 0 0 1)"
  by (simp add: apply_rail_def project_def normalized_def vec_length_def vec_consts sqrt_16_25)

lemma rail_factors:
  "get_factor max (Vector (3 / 5) (- (4 / 5)) 0) (Vector 1 0 0) (Vector (- 1) 0 0) = Inr (5 / 4)"
  "get_factor max (Vector 0 0 1) (Vector 1 0 0) (Vector (- 1) 0 0) = Inr 1"
  "get_factor max (Vector 0 (- 1) 0) (Vector 1 0 0) (Vector (- 1) 0 0) = Inr 1"
  by (simp_all add: get_factor_def angle_def saacos_def vec_consts Let_def sin_arccos_35)

lemma rail_adj_ix:
  "get_adj_ix 0 [Vector 1 0 0] True = Inr (Some 0, Some 0)"
  "get_adj_ix (Suc 0) [Vector 1 0 0] True = Inr (Some 0, Some 0)"
  by (simp_all add: get_adj_ix_def first_nonzero_def py_range_def vec_consts Let_def)

lemma rail_normals:
  "get_normals rail_mesh (Vector 0 0 1) 0 0 None = Inr (Vector 0 0 1, None, None)"
  by (simp add: get_normals_def)

lemma rail_direction0: "direction_at rail_mesh (Some [(0, x_plane)]) True False (1 / 10000) [0]
      [0, Suc 0] [Vector 1 0 0] True (Vector 0 0 1) None 0 = Inr (Some (Vector (3 / 4) (- 1) 0, Vector 0 0 1))"
  by (simp add: direction_at_def rail_adj_ix py_index_def rail_normals rail_tangent rail_choose0 rail_apply rail_factors vec_consts Let_def)

lemma rail_direction1: "direction_at rail_mesh (Some [(0, x_plane)]) True False (1 / 10000) [0]
      [0, Suc 0] [Vector 1 0 0] True (Vector 0 0 1) None (Suc 0) = Inr (Some (Vector 0 (- 1) 0, Vector 0 0 1))"
  by (simp add: direction_at_def rail_adj_ix py_index_def rail_normals rail_tangent rail_choose1 apply_rail_def rail_factors vec_consts Let_def)

lemma rail_vec_edges:
  "other_vert rail_mesh 0 0 = Some (Suc 0)"
  "normalized (vsub (vert_co rail_mesh (Suc 0)) (vert_co rail_mesh 0)) = Vector 1 0 0"
  by (simp_all add: rail_mesh_def other_vert_def normalized_def vec_length_def)

lemma upward_pos: "\<not> dot (Vector 0 0 1) (normalized (Vector 1 1 1)) < 0"
  by (simp add: normalized_def vec_length_def)

lemma rail_directions:
  "get_directions rail_mesh [Vert 0, Edge 0, Vert 1] (normalized (vadd (vadd X_UP Y_UP) Z_UP)) Z_UP
     (Some [(0, x_plane)]) False True False (1 / 10000)
   = Inr ([0, 1], [(Vector (3 / 4) (- 1) 0, Vector 0 0 1), (Vector 0 (- 1) 0, Vector 0 0 1)], Z_UP)"
  apply (simp add: get_directions_def orient_loop_def vec_consts rail_normal upward_pos Let_def)
  apply (simp add: loop_directions_def rail_vec_edges rail_direction0 rail_direction1)
  done

lemma rail_choose1_off:
  "choose_rail rail_mesh (Some [(0, x_plane)]) False False (1 / 10000) [0] (Suc 0) True
     (Vector 0 (- 1) 0) (Vector 0 0 1) (Vector 1 0 0) (Vector (- 1) 0 0) None None
   = Inr (None, Vector 0 0 1)"
  by (simp add: choose_rail_def)

lemma rail_apply_off:
  "apply_rail (Some (Vector 0 1 0)) (Vector 0 (- 1) 0) (Vector 0 0 1) = (Vector 0 (- 1) 0, Vector 0 0 1)"
  by (simp add: apply_rail_def project_def normalized_def vec_length_def vec_consts)

lemma rail_direction0_off:
  "direction_at rail_mesh (Some [(0, x_plane)]) False False (1 / 10000) [0]
      [0, Suc 0] [Vector 1 0 0] True (Vector 0 0 1) None 0 = Inr (Some (Vector 0 (- 1) 0, Vector 0 0 1))"
  by (simp add: direction_at_def rail_adj_ix py_index_def rail_normals rail_tangent rail_choose0_off rail_apply_off rail_factors vec_consts Let_def)

lemma rail_direction1_off:
  "direction_at rail_mesh (Some [(0, x_plane)]) False False (1 / 10000) [0]
      [0, Suc 0] [Vector 1 0 0] True (Vector 0 0 1) None (Suc 0) = Inr (Some (Vector 0 (- 1) 0, Vector 0 0 1))"
  by (simp add: direction_at_def rail_adj_ix py_index_def rail_normals rail_tangent rail_choose1_off apply_rail_def rail_factors vec_consts Let_def)

lemma rail_directions_off:
  "get_directions rail_mesh [Vert 0, Edge 0, Vert 1] (normalized (vadd (vadd X_UP Y_UP) Z_UP)) Z_UP
     (Some [(0, x_plane)]) False False False (1 / 10000)
   = Inr ([0, 1], [(Vector 0 (- 1) 0, Vector 0 0 1), (Vector 0 (- 1) 0, Vector 0 0 1)], Z_UP)"
  apply (simp add: get_directions_def orient_loop_def vec_consts rail_normal upward_pos Let_def)
  apply (simp add: loop_directions_def rail_vec_edges rail_direction0_off rail_direction1_off)
  done

text \<open>
  C1 (the code departs from the claim). Vertex 0 of the rail mesh is the end of a half
  loop and is mapped to the mirror plane x = 0; its mirror rail is (0, 1, 0). With
  \<open>edge_rail\<close> enabled the rail chosen for it is the edge rail (3, -4, 0): the assignment
  on line 466 replaces the mirror rail without looking at it. The tangent of vertex 0
  becomes (3/4, -1, 0), which leaves the mirror plane; with \<open>edge_rail\<close> disabled it is
  (0, -1, 0).
\<close>

theorem edge_rail_overrides_mirror_rail:
  "get_vert_mirror_pairs rail_mesh [0] [x_plane] = Inr (Some [(0, x_plane)], [0])
   \<and> get_mirror_rail x_plane Z_UP = (Some (Vector 0 1 0), Z_UP)
   \<and> choose_rail rail_mesh (Some [(0, x_plane)]) True False (1 / 10000) [0] 0 True
        (Vector 0 (- 1) 0) Z_UP (Vector 1 0 0) (Vector (- 1) 0 0) None None
      = Inr (Some (Vector 3 (- 4) 0), Z_UP)
   \<and> get_directions rail_mesh [Vert 0, Edge 0, Vert 1]
        (normalized (vadd (vadd X_UP Y_UP) Z_UP)) Z_UP (Some [(0, x_plane)])
        False True False (1 / 10000)
      = Inr ([0, 1], [(Vector (3 / 4) (- 1) 0, Z_UP), (Vector 0 (- 1) 0, Z_UP)], Z_UP)
   \<and> get_directions rail_mesh [Vert 0, Edge 0, Vert 1]
        (normalized (vadd (vadd X_UP Y_UP) Z_UP)) Z_UP (Some [(0, x_plane)])
        False False False (1 / 10000)
      = Inr ([0, 1], [(Vector 0 (- 1) 0, Z_UP), (Vector 0 (- 1) 0, Z_UP)], Z_UP)"
  using rail_pairs rail_mirror rail_choose0 rail_directions rail_directions_off by (simp add: Z_UP_def)

text \<open>
  The branch taken at vertex 0: the vertex is a loop end and \<open>edge_rail_only_end\<close> is
  off, so the edge rail is looked up and replaces the mirror rail.
\<close>

theorem edge_rail_overrides_mirror_rail_witness:
  "choose_rail rail_mesh (Some [(0, x_plane)]) True False (1 / 10000) [0] 0 True
        (Vector 0 (- 1) 0) Z_UP (Vector 1 0 0) (Vector (- 1) 0 0) None None
      = Inr (Some (Vector 3 (- 4) 0), Z_UP)"
  using edge_rail_overrides_mirror_rail by blast

text \<open>
  C4 (the code departs from the claim). Edge 0 of the rail mesh has both ends on the
  planes y = 0 and z = 0 of a mirror modifier with both axes enabled. The second
  \<open>set_edges_copy.remove(e)\<close> raises KeyError.
\<close>

theorem get_vert_mirror_pairs_double_remove:
  "collect_mirror_planes (mirror_ob False True True) Z_UP
     = [(ZERO_VEC, Y_UP, 1 / 1000), (ZERO_VEC, Z_UP, 1 / 1000)]
   \<and> get_vert_mirror_pairs rail_mesh [0]
        [(ZERO_VEC, Y_UP, 1 / 1000), (ZERO_VEC, Z_UP, 1 / 1000)] = Inl KeyError"
  by (simp add: collect_mirror_planes_def modifier_planes_def mirror_ob_def
      get_vert_mirror_pairs_def rail_mesh_def vec_consts Let_def)

lemma seam_planes:
  "collect_mirror_planes (mirror_ob False True False) Z_UP = [(ZERO_VEC, Y_UP, 1 / 1000)]"
  by (simp add: collect_mirror_planes_def modifier_planes_def mirror_ob_def Let_def)

lemma seam_edges: "collect_edges rail_mesh = Some [0]"
  by (simp add: collect_edges_def rail_mesh_def set_add_def)

lemma seam_pairs: "get_vert_mirror_pairs rail_mesh [0] [(ZERO_VEC, Y_UP, 1 / 1000)]
    = Inr (Some [(0, (ZERO_VEC, Y_UP, 1 / 1000)), (Suc 0, (ZERO_VEC, Y_UP, 1 / 1000))], [])"
  by (simp add: get_vert_mirror_pairs_def rail_mesh_def vec_consts)

lemma seam_infos:
  "op_mirror_modifier self \<Longrightarrow> \<not> op_caches_valid self \<Longrightarrow>
   get_offset_infos self rail_mesh (mirror_ob False True False) Z_UP
     = Inr (Computed [] [],
            self\<lparr>op_cache_offset_infos := Some [], op_cache_edges_orig_ixs := Some []\<rparr>,
            [''All selected edges are on mirror planes.''], Z_UP)"
  by (simp add: get_offset_infos_def solve_loops_def seam_edges seam_planes seam_pairs
      collect_loops_def)

lemma status_of_finished:
  "status_of (ebind m (\<lambda>(bm, self). Inr (FINISHED, bm, self, reports, z))) \<noteq> Some CANCELLED"
  by (cases m) (auto simp: status_of_def)

text \<open>
  C2 (the code departs from the claim). The only selected edge of the rail mesh lies on
  the mirror plane y = 0, so exclusion empties the edge set. \<open>get_offset_infos\<close> reports
  the warning and goes on (no \<open>return False, False\<close> follows the report), and \<open>execute\<close>
  runs \<open>do_offset_and_free\<close> and returns FINISHED: in move mode for every host, and in
  the default offset mode it never returns CANCELLED.
\<close>

theorem all_edges_mirrored_not_cancelled:
  "execute h (default_op\<lparr>op_mirror_modifier := True, op_geometry_mode := Move\<rparr>)
       (mirror_ob False True False) rail_mesh Z_UP
     = Inr (FINISHED, rail_mesh,
            default_op\<lparr>op_mirror_modifier := True, op_geometry_mode := Move,
                        op_cache_offset_infos := Some [], op_cache_edges_orig_ixs := Some []\<rparr>,
            [''All selected edges are on mirror planes.''], Z_UP)
   \<and> status_of (execute h (default_op\<lparr>op_mirror_modifier := True\<rparr>)
         (mirror_ob False True False) rail_mesh Z_UP) \<noteq> Some CANCELLED"
proof -
  have a: "op_mirror_modifier (default_op\<lparr>op_mirror_modifier := True, op_geometry_mode := Move\<rparr>)"
          "\<not> op_caches_valid (default_op\<lparr>op_mirror_modifier := True, op_geometry_mode := Move\<rparr>)"
          "op_mirror_modifier (default_op\<lparr>op_mirror_modifier := True\<rparr>)"
          "\<not> op_caches_valid (default_op\<lparr>op_mirror_modifier := True\<rparr>)"
    by (simp_all add: default_op_def)
  have 1: "execute h (default_op\<lparr>op_mirror_modifier := True, op_geometry_mode := Move\<rparr>)
       (mirror_ob False True False) rail_mesh Z_UP
     = Inr (FINISHED, rail_mesh,
            default_op\<lparr>op_mirror_modifier := True, op_geometry_mode := Move,
                        op_cache_offset_infos := Some [], op_cache_edges_orig_ixs := Some []\<rparr>,
            [''All selected edges are on mirror planes.''], Z_UP)"
    unfolding execute_def seam_infos [OF a(1,2)]
    by (simp add: do_offset_and_free_def clean_def default_op_def rail_mesh_def Let_def)
  have 2: "status_of (execute h (default_op\<lparr>op_mirror_modifier := True\<rparr>)
         (mirror_ob False True False) rail_mesh Z_UP) \<noteq> Some CANCELLED"
    unfolding execute_def seam_infos [OF a(3,4)]
    by (simp add: status_of_finished)
  from 1 2 show ?thesis by simp
qed

subsection \<open>The factor at a spike\<close>

text \<open>
  The stages of \<open>get_directions\<close> on the spike mesh. At the tip both edge vectors point
  down, opposite to the up vector of the loop.
\<close>

lemma spike_edges: "collect_edges spike_mesh = Some [0, 1]"
  by (simp add: collect_edges_def spike_mesh_def set_add_def)

lemma spike_loops:
  "collect_loops spike_mesh [0, Suc 0]
     = Inr (Some [[Vert 2, Edge 1, Vert 1, Edge 0, Vert 0]])"
  by (simp add: collect_loops_def spike_mesh_def grow.simps other_vert_def)

lemma spike_adj_ix:
  "get_adj_ix 0 [Vector 0 0 1, Vector 0 0 (- 1)] True = Inr (Some 0, Some 0)"
  "get_adj_ix (Suc 0) [Vector 0 0 1, Vector 0 0 (- 1)] True = Inr (Some (Suc 0), Some 0)"
  "get_adj_ix (Suc (Suc 0)) [Vector 0 0 1, Vector 0 0 (- 1)] True
     = Inr (Some (Suc 0), Some (Suc 0))"
  by (simp_all add: get_adj_ix_def first_nonzero_def py_range_def vec_consts Let_def upt_rec)

lemma spike_tangent:
  "calc_tangent (Vector 0 0 1) (Vector 0 0 1) (Vector 0 0 (- 1)) (1 / 10000)
     = Inr (Vector 0 0 0)"
  "calc_tangent (Vector 0 0 1) (Vector 0 0 (- 1)) (Vector 0 0 (- 1)) (1 / 10000)
     = Inr (Vector 0 0 0)"
  "calc_tangent (Vector 0 0 1) (Vector 0 0 (- 1)) (Vector 0 0 1) (1 / 10000)
     = Inr (Vector 0 0 0)"
  by (simp_all add: calc_tangent_def calc_tangent_2d_def project_def normalized_def
      vec_length_def vec_consts Let_def get_corner_type_def)

lemma spike_factors:
  "get_factor max (Vector 0 0 0) r l = Inr 0"
  "get_factor max (Vector 0 0 1) (Vector 0 0 1) (Vector 0 0 (- 1)) = Inr 0"
  "get_factor max (Vector 0 0 1) (Vector 0 0 (- 1)) (Vector 0 0 1) = Inr 0"
  "get_factor max (Vector 0 0 1) (Vector 0 0 (- 1)) (Vector 0 0 (- 1)) = Inr (1 / sin M_PI_F)"
  "get_factor max (Vector 0 0 1) (Vector 0 0 1) (Vector 0 0 1) = Inr 0"
  using sin_M_PI_F(1)
  by (simp_all add: get_factor_def angle_def saacos_ends vec_consts Let_def)

lemma spike_direction:
  "direction_at spike_mesh None False False (1 / 10000) [Suc 0, 0]
      [2, Suc 0, 0] [Vector 0 0 1, Vector 0 0 (- 1)] True (Vector 0 0 1) None 0
     = Inr (Some (Vector 0 0 0, Vector 0 0 0))"
  "direction_at spike_mesh None False False (1 / 10000) [Suc 0, 0]
      [2, Suc 0, 0] [Vector 0 0 1, Vector 0 0 (- 1)] True (Vector 0 0 1) None (Suc 0)
     = Inr (Some (Vector 0 0 0, Vector 0 0 (1 / sin M_PI_F)))"
  "direction_at spike_mesh None False False (1 / 10000) [Suc 0, 0]
      [2, Suc 0, 0] [Vector 0 0 1, Vector 0 0 (- 1)] True (Vector 0 0 1) None (Suc (Suc 0))
     = Inr (Some (Vector 0 0 0, Vector 0 0 0))"
  by (simp_all add: direction_at_def spike_adj_ix py_index_def get_normals_def spike_tangent
      spike_factors vec_consts Let_def)

lemma spike_normal:
  "calc_normal_from_verts spike_mesh [2, Suc 0, 0] (Vector 0 0 1) = Inr (Vector 0 0 1, True)"
  by (simp add: calc_normal_from_verts_def spike_mesh_def newell_def normalized_def vec_consts)

lemma spike_vec_edges:
  "other_vert spike_mesh (Suc 0) 2 = Some (Suc 0)"
  "other_vert spike_mesh 0 (Suc 0) = Some 0"
  "normalized (vsub (vert_co spike_mesh (Suc 0)) (vert_co spike_mesh 2)) = Vector 0 0 1"
  "normalized (vsub (vert_co spike_mesh 0) (vert_co spike_mesh (Suc 0))) = Vector 0 0 (- 1)"
  by (simp_all add: spike_mesh_def other_vert_def normalized_def vec_length_def)

lemma spike_directions:
  "get_directions spike_mesh [Vert 2, Edge (Suc 0), Vert (Suc 0), Edge 0, Vert 0]
     (normalized (Vector 1 1 1)) (Vector 0 0 1) None False False False (1 / 10000)
   = Inr ([2, 1, 0],
          [(Vector 0 0 0, Vector 0 0 0), (Vector 0 0 0, Vector 0 0 (1 / sin M_PI_F)),
           (Vector 0 0 0, Vector 0 0 0)],
          Vector 0 0 1)"
  apply (simp add: get_directions_def orient_loop_def spike_normal upward_pos Let_def)
  apply (simp add: loop_directions_def spike_vec_edges spike_direction upt_rec)
  done

text \<open>
  C10 (the code departs from the claim). The direction (0, 0, 1) and two edge vectors
  (0, 0, -1) opposite to it: \<open>Vector.angle\<close> returns the single-precision pi for both, whose
  sine is negative and not zero. The guard \<open>denominator != .0\<close> lets it pass and
  \<open>get_factor\<close> returns the reciprocal, a number below -9000000: neither 0 nor at least 1.
  For edge vectors along the direction the angle is 0, the sine is 0 and the guard gives 0.
  \<open>get_directions\<close> makes this call at the tip of the spike mesh, with the default options:
  the up vector of vertex 1 is \<open>Z_UP\<close> multiplied by that factor.
\<close>

theorem get_factor_opposite_negative:
  "get_factor max (Vector 0 0 1) (Vector 0 0 (- 1)) (Vector 0 0 (- 1)) = Inr (1 / sin M_PI_F)
   \<and> 1 / sin M_PI_F < - 9000000
   \<and> get_factor max (Vector 0 0 1) (Vector 0 0 1) (Vector 0 0 1) = Inr 0
   \<and> collect_edges spike_mesh = Some [0, 1]
   \<and> collect_loops spike_mesh [0, 1] = Inr (Some [[Vert 2, Edge 1, Vert 1, Edge 0, Vert 0]])
   \<and> get_directions spike_mesh [Vert 2, Edge 1, Vert 1, Edge 0, Vert 0]
        (normalized (vadd (vadd X_UP Y_UP) Z_UP)) Z_UP None False False False (1 / 10000)
      = Inr ([2, 1, 0],
             [(ZERO_VEC, ZERO_VEC), (ZERO_VEC, smul (1 / sin M_PI_F) Z_UP),
              (ZERO_VEC, ZERO_VEC)],
             Z_UP)"
proof -
  have "sin M_PI_F * 9000000 > - 1" using sin_M_PI_F(2) by simp
  with sin_M_PI_F(1) have "1 / sin M_PI_F < - 9000000"
    by (simp add: divide_less_eq)
  then show ?thesis
    using spike_factors(4,5) spike_edges spike_loops spike_directions
    by (simp add: vec_consts)
qed

subsection \<open>The cache of the interactive session\<close>

text \<open>
  The vertices of every computed loop are ends of edges of the mesh and the edges are edges
  of the mesh, so that on a mesh with valid indices the cached indices lead back to the
  very vertices and edges of the full computation.
\<close>

lemma ebind_Inr_iff:
  "ebind m f = Inr y \<longleftrightarrow> (\<exists>a. m = Inr a \<and> f a = Inr y)"
  by (cases m) auto

lemma py_index_valid:
  assumes "map f xs = map int [0 ..< length xs]" and "x \<in> set xs"
  shows "py_index xs (f x) = Inr x"
proof -
  from assms(2) obtain i where i: "i < length xs" "xs ! i = x"
    by (auto simp: in_set_conv_nth)
  from assms(1) i have "f x = int i"
    by (metis length_map nth_map nth_upt add_0 )
  with i show ?thesis by (simp add: py_index_def)
qed

lemma emap_py_index_valid:
  assumes "map f xs = map int [0 ..< length xs]" and "set ys \<subseteq> set xs"
  shows "emap (py_index xs) (map f ys) = Inr ys"
  using assms(2) by (induction ys) (auto simp: py_index_valid [OF assms(1)])

lemma emap_cache_valid:
  assumes "map f xs = map int [0 ..< length xs]"
    and "\<forall>p \<in> set infos. set (fst p) \<subseteq> set xs"
  shows "emap (\<lambda>(ix_vs, directions). ebind (emap (py_index xs) ix_vs)
                  (\<lambda>verts. Inr (verts, directions)))
           (map (\<lambda>(verts, directions). (map f verts, directions)) infos) = Inr infos"
  using assms(2)
  by (induction infos) (auto simp: emap_py_index_valid [OF assms(1)])

lemma collect_edges_subset:
  "collect_edges bm = Some s \<Longrightarrow> set s \<subseteq> set (bm_edges bm)"
  using collect_edges_loop_set [of bm "bm_edges bm" "[]"]
  by (auto simp: collect_edges_def Let_def split: if_splits)

lemma mirror_planes_loop_subset:
  "mirror_planes_loop bm e mps pairs s = Inr (pairs', s') \<Longrightarrow> set s' \<subseteq> set s"
proof (induction mps arbitrary: pairs s)
  case Nil
  then show ?case by simp
next
  case (Cons mp mps)
  obtain v1 v2 where ev: "edge_verts bm e = (v1, v2)" by (cases "edge_verts bm e")
  obtain p_co p_norm mlimit where mp: "mp = (p_co, p_norm, mlimit)" by (cases mp)
  from Cons.prems ev mp show ?case
    using set_remove1_subset [of e s]
    by (auto simp: Let_def split: if_splits dest!: Cons.IH)
qed

lemma mirror_edges_loop_subset:
  "mirror_edges_loop bm es mps pairs s = Inr (pairs', s') \<Longrightarrow> set s' \<subseteq> set s"
proof (induction es arbitrary: pairs s)
  case Nil
  then show ?case by simp
next
  case (Cons e es)
  from Cons.prems obtain p1 s1 where
    a: "mirror_planes_loop bm e mps pairs s = Inr (p1, s1)" and
    b: "mirror_edges_loop bm es mps p1 s1 = Inr (pairs', s')"
    by (auto simp: ebind_Inr_iff)
  from Cons.IH [OF b] mirror_planes_loop_subset [OF a] show ?case by blast
qed

lemma get_vert_mirror_pairs_subset:
  "get_vert_mirror_pairs bm s mps = Inr (vmp, s') \<Longrightarrow> set s' \<subseteq> set s"
  by (auto simp: get_vert_mirror_pairs_def ebind_Inr_iff split: if_splits
      dest: mirror_edges_loop_subset)

lemma other_vert_endpoints:
  "other_vert bm e v = Some v' \<Longrightarrow> e \<in> S \<Longrightarrow> v' \<in> endpoints bm S"
  by (cases "edge_verts bm e")
     (auto simp: other_vert_def endpoints_def image_iff split: if_splits intro: bexI [of _ e])

lemma endpoints_mono:
  "S \<subseteq> T \<Longrightarrow> endpoints bm S \<subseteq> endpoints bm T"
  by (auto simp: endpoints_def)

lemma loop_verts_simps [simp]:
  "loop_verts (xs @ ys) = loop_verts xs \<union> loop_verts ys"
  "loop_verts (rev xs) = loop_verts xs"
  "loop_verts (Vert v # xs) = insert v (loop_verts xs)"
  "loop_verts (Edge e # xs) = loop_verts xs"
  "loop_verts [] = {}"
  by (auto simp: loop_verts_def)

lemma grow_verts:
  "grow bm s lp v_left v_right reverse = Inr (Some (lp', s')) \<Longrightarrow>
     set s' \<subseteq> set s \<and> loop_verts lp' \<subseteq> loop_verts lp \<union> endpoints bm (set s)"
proof (induction bm s lp v_left v_right reverse rule: grow.induct)
  case (1 bm s lp v_left v_right reverse)
  from "1.prems" obtain r s1 where
    sc: "scan_link_edges (vert_link_edges bm v_right) None s = Some (r, s1)"
    by (subst (asm) grow.simps) (auto split: option.splits)
  show ?case
  proof (cases r)
    case None
    with sc have s1: "s1 = s" by (auto dest: scan_link_edges_none_same)
    show ?thesis
    proof (cases "v_right \<noteq> v_left \<and> \<not> reverse")
      case True
      with "1.prems" sc None
      have "grow bm s1 (rev lp) v_right v_left True = Inr (Some (lp', s'))"
        by (subst (asm) grow.simps) simp
      with "1.IH"(1) [OF sc refl None] True s1 show ?thesis by simp
    next
      case False
      with "1.prems" sc None s1 show ?thesis
        by (subst (asm) grow.simps) (auto split: if_splits)
    qed
  next
    case (Some e)
    from sc Some have e: "e \<in> set s" and s1: "s1 = remove1 e s"
      by (auto dest: scan_link_edges_None)
    from s1 have sub: "set s1 \<subseteq> set s" by (simp add: set_remove1_subset)
    from "1.prems" sc Some obtain v' where
      ov: "other_vert bm e v_right = Some v'" and
      g: "grow bm s1 (lp @ [Edge e, Vert v']) v_left v' reverse = Inr (Some (lp', s'))"
      by (subst (asm) grow.simps) (auto split: option.splits)
    from "1.IH"(2) [OF sc refl Some ov g]
    have ih: "set s' \<subseteq> set s1"
      "loop_verts lp' \<subseteq> loop_verts (lp @ [Edge e, Vert v']) \<union> endpoints bm (set s1)"
      by auto
    from other_vert_endpoints [OF ov e] have "v' \<in> endpoints bm (set s)" .
    with ih sub endpoints_mono [OF sub, of bm] show ?thesis by auto
  qed
qed

lemma collect_loops_while_verts:
  "collect_loops_while bm s loops = Inr (Some loops') \<Longrightarrow>
     (\<Union>lp \<in> set loops'. loop_verts lp)
       \<subseteq> (\<Union>lp \<in> set loops. loop_verts lp) \<union> endpoints bm (set s)"
proof (induction bm s loops rule: collect_loops_while.induct)
  case (1 bm loops)
  then show ?case by auto
next
  case (2 bm edge_start s loops)
  obtain v_left v_right where ev: "edge_verts bm edge_start = (v_left, v_right)"
    by (cases "edge_verts bm edge_start")
  let ?lp = "[Vert v_left, Edge edge_start, Vert v_right]"
  from "2.prems" ev obtain lp1 s1 where
    g: "grow bm s ?lp v_left v_right False = Inr (Some (lp1, s1))" and
    c: "collect_loops_while bm s1 (loops @ [lp1]) = Inr (Some loops')"
    by (auto split: sum.splits option.splits)
  from "2.IH" [OF refl ev [symmetric] refl g refl refl c]
  have ih: "(\<Union>lp \<in> set loops'. loop_verts lp)
       \<subseteq> (\<Union>lp \<in> set (loops @ [lp1]). loop_verts lp) \<union> endpoints bm (set s1)" .
  from grow_verts [OF g] have gv: "set s1 \<subseteq> set s"
    "loop_verts lp1 \<subseteq> loop_verts ?lp \<union> endpoints bm (set s)" by auto
  from ev have a: "loop_verts ?lp \<subseteq> endpoints bm (set (edge_start # s))"
    by (auto simp: endpoints_def image_iff)
  have b: "endpoints bm (set s) \<subseteq> endpoints bm (set (edge_start # s))"
    by (rule endpoints_mono) auto
  from gv(1) have c': "endpoints bm (set s1) \<subseteq> endpoints bm (set (edge_start # s))"
    by (intro endpoints_mono) auto
  from gv(2) a b have d: "loop_verts lp1 \<subseteq> endpoints bm (set (edge_start # s))"
    by blast
  from ih have "(\<Union>lp \<in> set loops'. loop_verts lp)
       \<subseteq> (\<Union>lp \<in> set loops. loop_verts lp) \<union> loop_verts lp1 \<union> endpoints bm (set s1)"
    by auto
  with c' d show ?case by blast
qed

lemma collect_loops_verts:
  "collect_loops bm s = Inr (Some loops) \<Longrightarrow> lp \<in> set loops \<Longrightarrow>
     loop_verts lp \<subseteq> endpoints bm (set s)"
  by (auto simp: collect_loops_def dest!: collect_loops_while_verts)

lemma emap_the_vert:
  "emap the_vert xs = Inr vs \<Longrightarrow> set vs \<subseteq> {v. Vert v \<in> set xs}"
proof (induction xs arbitrary: vs)
  case Nil
  then show ?case by simp
next
  case (Cons x xs)
  from Cons.prems obtain v vs' where
    x: "the_vert x = Inr v" and r: "emap the_vert xs = Inr vs'" and vs: "vs = v # vs'"
    by (auto simp: ebind_Inr_iff)
  from x have "x = Vert v" by (cases x) auto
  with Cons.IH [OF r] vs show ?case by auto
qed

lemma set_py_even: "set (py_even xs) \<subseteq> set xs"
  by (induction xs rule: py_even.induct) auto

lemma post_simps [simp]:
  "post (Inr a) P = P a"
  "post (Inl e) P = True"
  "post (ebind m f) P = post m (\<lambda>a. post (f a) P)"
  by (cases m; simp add: post_def)+

lemma post_any: "(\<And>a. P a) \<Longrightarrow> post m P"
  by (simp add: post_def)

lemma post_weaken:
  "post m Q \<Longrightarrow> (\<And>a. Q a \<Longrightarrow> P a) \<Longrightarrow> post m P"
  by (simp add: post_def)

lemma postD: "post m P \<Longrightarrow> m = Inr r \<Longrightarrow> P r"
  by (simp add: post_def)

lemma reorder_loop_post:
  "post (reorder_loop bm verts edges normal adj_faces) (\<lambda>r. set (fst r) = set verts)"
  unfolding reorder_loop_def
  by (auto simp: Let_def split: option.splits intro!: post_any)

lemma loop_directions_post:
  "post (loop_directions bm vmp edge_rail er_only_end threshold set_edges
           verts edges lp_normal adj_faces) (\<lambda>r. set (fst r) \<subseteq> set verts)"
  unfolding loop_directions_def
  apply simp
  apply (intro conjI impI)
   apply (rule post_any, rule impI, rule post_any,
      auto split: option.splits dest: in_set_butlastD)+
  done

lemma orient_loop_post:
  "post (orient_loop bm verts edges vec_upward normal_fallback follow_face)
     (\<lambda>r. set (fst r) = set verts)"
  unfolding orient_loop_def
  apply simp
  apply (rule post_any)
  apply (clarsimp simp: Let_def split: option.splits)
  apply (intro conjI impI allI)
  apply (rule post_weaken [OF reorder_loop_post], clarsimp)+
  done

lemma emap_the_vert_post:
  "post (emap the_vert xs) (\<lambda>vs. set vs \<subseteq> loop_verts xs)"
  using emap_the_vert [of xs] by (auto simp: post_def loop_verts_def)

lemma loop_verts_py_even: "loop_verts (py_even lp) \<subseteq> loop_verts lp"
  using set_py_even [of lp] by (auto simp: loop_verts_def)

lemma get_directions_post:
  "post (get_directions bm lp vec_upward normal_fallback vert_mirror_pairs
           follow_face edge_rail er_only_end threshold)
     (\<lambda>r. set (fst r) \<subseteq> loop_verts lp)"
  unfolding get_directions_def
  apply simp
  apply (rule post_weaken [OF emap_the_vert_post])
  apply (rule post_any)
  apply (rule post_weaken [OF orient_loop_post])
  apply clarsimp
  apply (rule post_weaken [OF loop_directions_post])
  using loop_verts_py_even [of lp] apply auto
  done

lemma offset_infos_loop_post:
  "\<forall>lp \<in> set loops. loop_verts lp \<subseteq> U \<Longrightarrow> \<forall>p \<in> set acc. set (fst p) \<subseteq> U \<Longrightarrow>
     post (offset_infos_loop bm vu vmp ff er ero thr loops acc nf)
       (\<lambda>r. \<forall>p \<in> set (fst r). set (fst p) \<subseteq> U)"
proof (induction loops arbitrary: acc nf)
  case Nil
  then show ?case by simp
next
  case (Cons lp loops)
  have ih1: "post (offset_infos_loop bm vu vmp ff er ero thr loops (acc @ [(a, aa)]) b)
               (\<lambda>r. \<forall>p \<in> set (fst r). set (fst p) \<subseteq> U)"
    if "set a \<subseteq> loop_verts lp" for a aa b
    using Cons.prems that by (intro Cons.IH) auto
  have ih2: "post (offset_infos_loop bm vu vmp ff er ero thr loops acc b)
               (\<lambda>r. \<forall>p \<in> set (fst r). set (fst p) \<subseteq> U)" for b
    using Cons.prems by (intro Cons.IH) auto
  show ?case
    apply simp
    apply (rule post_weaken [OF get_directions_post])
    using ih1 ih2 apply clarsimp
    done
qed

lemma get_vert_mirror_pairs_post:
  "post (get_vert_mirror_pairs bm s mps) (\<lambda>r. set (snd r) \<subseteq> set s)"
  using get_vert_mirror_pairs_subset [of bm s mps] by (auto simp: post_def)

lemma collect_loops_post:
  "post (collect_loops bm s)
     (\<lambda>r. case r of None \<Rightarrow> True
               | Some loops \<Rightarrow> \<forall>lp \<in> set loops. loop_verts lp \<subseteq> endpoints bm (set s))"
  using collect_loops_verts [of bm s] by (auto simp: post_def split: option.splits)

lemma solve_loops_post:
  assumes "set s \<subseteq> set (bm_edges bm)"
  shows "post (solve_loops self bm vmp s reports z_up) (computed_ok self bm)"
  unfolding solve_loops_def
  apply simp
  apply (rule post_weaken [OF collect_loops_post])
  apply (clarsimp simp: Let_def computed_ok_def split: option.splits)
  apply (rule post_weaken [OF offset_infos_loop_post [where U = "endpoints bm (set (bm_edges bm))"]])
  using assms endpoints_mono [OF assms, of bm]
    apply (auto simp: computed_ok_def cache_of_def)
  done

lemma get_offset_infos_post:
  "post (get_offset_infos self bm ob z_up) (computed_ok self bm)"
proof (cases "collect_edges bm")
  case None
  then show ?thesis by (simp add: get_offset_infos_def computed_ok_def)
next
  case (Some s0)
  from collect_edges_subset [OF Some] have s0: "set s0 \<subseteq> set (bm_edges bm)" .
  show ?thesis
  proof (cases "op_mirror_modifier self")
    case True
    show ?thesis
      unfolding get_offset_infos_def
      apply (simp add: Some True Let_def computed_ok_def [of self bm "(UseCache, _)"])
      apply (intro impI)
      apply (rule post_weaken [OF get_vert_mirror_pairs_post])
      apply clarsimp
      using s0 apply (auto intro!: solve_loops_post)
      done
  next
    case False
    show ?thesis
      unfolding get_offset_infos_def
      using solve_loops_post [OF s0]
      by (simp add: Some False computed_ok_def [of self bm "(UseCache, _)"])
  qed
qed

lemma index_valid_endpoints:
  "index_valid bm \<Longrightarrow> endpoints bm (set (bm_edges bm)) \<subseteq> set (bm_verts bm)"
  by (auto simp: index_valid_def endpoints_def list_all_iff)

lemma do_offset_cached_eq:
  assumes "index_valid bm"
    and "set edges \<subseteq> set (bm_edges bm)"
    and "\<forall>p \<in> set infos. set (fst p) \<subseteq> set (bm_verts bm)"
    and "op_cache_offset_infos self = Some (cache_of bm infos)"
    and "op_cache_edges_orig_ixs self = Some (map (edge_index bm) edges)"
  shows "do_offset_and_free h self bm None None
           = do_offset_and_free h self bm (Some infos) (Some edges)"
proof -
  from assms(1) have v: "map (vert_index bm) (bm_verts bm) = map int [0 ..< length (bm_verts bm)]"
    and e: "map (edge_index bm) (bm_edges bm) = map int [0 ..< length (bm_edges bm)]"
    by (simp_all add: index_valid_def)
  have 1: "emap (py_index (bm_edges bm)) (map (edge_index bm) edges) = Inr edges"
    by (rule emap_py_index_valid [OF e assms(2)])
  have 2: "emap (\<lambda>(ix_vs, directions). ebind (emap (py_index (bm_verts bm)) ix_vs)
                  (\<lambda>verts. Inr (verts, directions))) (cache_of bm infos) = Inr infos"
    unfolding cache_of_def by (rule emap_cache_valid [OF v assms(3)])
  show ?thesis
    unfolding do_offset_and_free_def by (simp add: assms(4,5) 1 2)
qed

lemma map_sum_ebind: "map_sum id g (ebind m f) = ebind m (\<lambda>a. map_sum id g (f a))"
  by (cases m) auto

lemma ebind_cong_all: "(\<And>a. f a = g a) \<Longrightarrow> ebind m f = ebind m g"
  by (cases m) auto

lemma solve_loops_width_depth:
  "solve_loops (self\<lparr>op_width := w, op_depth := d\<rparr>) bm vmp s reports z
     = map_sum id (with_width_depth w d) (solve_loops self bm vmp s reports z)"
  unfolding solve_loops_def
  apply (simp add: map_sum_ebind)
  apply (rule ebind_cong_all)
  apply (simp add: Let_def map_sum_ebind with_width_depth_def split: option.splits)
  apply (intro allI impI)
  apply (rule ebind_cong_all)
  apply (auto simp: with_width_depth_def)
  done

lemma get_offset_infos_width_depth:
  "get_offset_infos (self\<lparr>op_width := w, op_depth := d\<rparr>) bm ob z
     = map_sum id (with_width_depth w d) (get_offset_infos self bm ob z)"
  unfolding get_offset_infos_def
  apply (simp add: map_sum_ebind solve_loops_width_depth split: option.splits)
  apply (auto simp: with_width_depth_def intro!: ebind_cong_all)
  done

text \<open>
  The cached path replays the computation that filled the cache. Let a full computation
  \<open>get_offset_infos\<close> on a mesh with valid indices, started with \<open>Z_UP\<close> = \<open>z_up\<close>, return
  \<open>offset_infos\<close> and \<open>edges_orig\<close> and leave the instance \<open>self'\<close> with its caches and
  \<open>Z_UP\<close> = \<open>z_up'\<close>. For every new width and depth: an update with the caches marked
  valid takes the cached path; the full computation for that width and depth started
  again from \<open>z_up\<close> returns the same \<open>offset_infos\<close> and \<open>edges_orig\<close>; and
  \<open>do_offset_and_free\<close> through the cached indices gives exactly the result (mesh and
  instance) that it gives on those values, for every host. Nothing is said here about the
  full computation started from \<open>z_up'\<close>, the state the session is in at the update.
\<close>

lemma cached_update_replays_filling_run:
  assumes "index_valid bm"
    and "get_offset_infos self bm ob z_up
           = Inr (Computed offset_infos edges_orig, self', reports, z_up')"
  shows "get_offset_infos (self'\<lparr>op_width := w, op_depth := d, op_caches_valid := True\<rparr>)
             bm ob z_up'
           = Inr (UseCache, self'\<lparr>op_width := w, op_depth := d, op_caches_valid := True\<rparr>,
                  [], z_up')
       \<and> get_offset_infos (self\<lparr>op_width := w, op_depth := d\<rparr>) bm ob z_up
           = Inr (Computed offset_infos edges_orig, self'\<lparr>op_width := w, op_depth := d\<rparr>,
                  reports, z_up')
       \<and> do_offset_and_free h (self'\<lparr>op_width := w, op_depth := d, op_caches_valid := True\<rparr>)
             bm None None
           = do_offset_and_free h (self'\<lparr>op_width := w, op_depth := d\<rparr>)
               bm (Some offset_infos) (Some edges_orig)
       \<and> outcome (execute h (self'\<lparr>op_width := w, op_depth := d, op_caches_valid := True\<rparr>)
                    ob bm z_up')
           = outcome (execute h (self\<lparr>op_width := w, op_depth := d\<rparr>) ob bm z_up)"
proof -
  from postD [OF get_offset_infos_post assms(2)]
  have ok: "set edges_orig \<subseteq> set (bm_edges bm)"
    "\<forall>p \<in> set offset_infos. set (fst p) \<subseteq> endpoints bm (set (bm_edges bm))"
    "self' = self\<lparr>op_cache_offset_infos := Some (cache_of bm offset_infos),
                   op_cache_edges_orig_ixs := Some (map (edge_index bm) edges_orig)\<rparr>"
    by (simp_all add: computed_ok_def)
  from ok(2) index_valid_endpoints [OF assms(1)]
  have verts: "\<forall>p \<in> set offset_infos. set (fst p) \<subseteq> set (bm_verts bm)" by blast
  let ?c = "self'\<lparr>op_width := w, op_depth := d, op_caches_valid := True\<rparr>"
  have 1: "get_offset_infos ?c bm ob z_up' = Inr (UseCache, ?c, [], z_up')"
    by (simp add: get_offset_infos_def ok(3))
  have 2: "get_offset_infos (self\<lparr>op_width := w, op_depth := d\<rparr>) bm ob z_up
           = Inr (Computed offset_infos edges_orig, self'\<lparr>op_width := w, op_depth := d\<rparr>,
                  reports, z_up')"
    by (simp add: get_offset_infos_width_depth assms(2) with_width_depth_def)
  have "do_offset_and_free h ?c bm None None
          = do_offset_and_free h ?c bm (Some offset_infos) (Some edges_orig)"
    by (rule do_offset_cached_eq [OF assms(1) ok(1) verts]) (simp_all add: ok(3))
  also have "\<dots> = do_offset_and_free h (self'\<lparr>op_width := w, op_depth := d\<rparr>)
               bm (Some offset_infos) (Some edges_orig)"
    by (simp add: do_offset_and_free_def)
  finally have 3: "do_offset_and_free h ?c bm None None
          = do_offset_and_free h (self'\<lparr>op_width := w, op_depth := d\<rparr>)
              bm (Some offset_infos) (Some edges_orig)" .
  have 4: "outcome (execute h ?c ob bm z_up')
          = outcome (execute h (self\<lparr>op_width := w, op_depth := d\<rparr>) ob bm z_up)"
    unfolding execute_def 1 2
    by (cases "do_offset_and_free h (self'\<lparr>op_width := w, op_depth := d\<rparr>)
                 bm (Some offset_infos) (Some edges_orig)")
       (simp_all add: 3 outcome_def split: prod.splits)
  from 1 2 3 4 show ?thesis by simp
qed

lemma plain_adj_ix:
  "get_adj_ix 0 [Vector (- 1) 0 0] True = Inr (Some 0, Some 0)"
  "get_adj_ix (Suc 0) [Vector (- 1) 0 0] True = Inr (Some 0, Some 0)"
  by (simp_all add: get_adj_ix_def first_nonzero_def py_range_def vec_consts Let_def)

lemma plain_tangent:
  "calc_tangent (Vector 0 0 1) (Vector (- 1) 0 0) (Vector 1 0 0) (1 / 10000) = Inr (Vector 0 1 0)"
  by (simp add: calc_tangent_def calc_tangent_2d_def project_def normalized_def
      vec_length_def vec_consts Let_def get_corner_type_def angle_def saacos_ends
      M_PI_F_straight)

lemma plain_choose:
  "choose_rail rail_mesh None False False (1 / 10000) [0] v True
     (Vector 0 1 0) (Vector 0 0 1) (Vector (- 1) 0 0) (Vector 1 0 0) None None
   = Inr (None, Vector 0 0 1)"
  by (simp add: choose_rail_def)

lemma plain_factors:
  "get_factor max (Vector 0 1 0) (Vector (- 1) 0 0) (Vector 1 0 0) = Inr 1"
  "get_factor max (Vector 0 0 1) (Vector (- 1) 0 0) (Vector 1 0 0) = Inr 1"
  by (simp_all add: get_factor_def angle_def saacos_def vec_consts Let_def)

lemma plain_direction:
  "direction_at rail_mesh None False False (1 / 10000) [0]
      [Suc 0, 0] [Vector (- 1) 0 0] True (Vector 0 0 1) None 0
     = Inr (Some (Vector 0 1 0, Vector 0 0 1))"
  "direction_at rail_mesh None False False (1 / 10000) [0]
      [Suc 0, 0] [Vector (- 1) 0 0] True (Vector 0 0 1) None (Suc 0)
     = Inr (Some (Vector 0 1 0, Vector 0 0 1))"
  by (simp_all add: direction_at_def plain_adj_ix py_index_def rail_normals plain_tangent
      plain_choose apply_rail_def plain_factors vec_consts Let_def)

lemma plain_normal:
  "calc_normal_from_verts rail_mesh [Suc 0, 0] (Vector 0 0 1) = Inr (Vector 0 0 1, True)"
  by (simp add: calc_normal_from_verts_def rail_mesh_def newell_def normalized_def vec_consts)

lemma plain_vec_edges:
  "other_vert rail_mesh 0 (Suc 0) = Some 0"
  "normalized (vsub (vert_co rail_mesh 0) (vert_co rail_mesh (Suc 0))) = Vector (- 1) 0 0"
  by (simp_all add: rail_mesh_def other_vert_def normalized_def vec_length_def)

lemma plain_directions:
  "get_directions rail_mesh [Vert (Suc 0), Edge 0, Vert 0] (normalized (Vector 1 1 1))
     (Vector 0 0 1) None False False False (1 / 10000)
   = Inr ([Suc 0, 0], [(Vector 0 1 0, Vector 0 0 1), (Vector 0 1 0, Vector 0 0 1)],
          Vector 0 0 1)"
  apply (simp add: get_directions_def orient_loop_def plain_normal upward_pos Let_def)
  apply (simp add: loop_directions_def plain_vec_edges plain_direction)
  done

lemma plain_loops: "collect_loops rail_mesh [0] = Inr (Some [[Vert 1, Edge 0, Vert 0]])"
  by (simp add: collect_loops_def rail_mesh_def grow.simps other_vert_def)

lemma plain_infos:
  "get_offset_infos default_op rail_mesh (mirror_ob False False False) Z_UP
     = Inr (Computed [([1, 0], [(Vector 0 1 0, Z_UP), (Vector 0 1 0, Z_UP)])] [0],
            default_op\<lparr>op_cache_offset_infos :=
                         Some [([1, 0], [(Vector 0 1 0, Z_UP), (Vector 0 1 0, Z_UP)])],
                       op_cache_edges_orig_ixs := Some [0]\<rparr>,
            [], Z_UP)"
proof -
  have d: "\<not> op_caches_valid default_op" "\<not> op_mirror_modifier default_op"
    "\<not> op_follow_face default_op" "\<not> op_edge_rail default_op"
    "\<not> op_edge_rail_only_end default_op" "op_threshold default_op = 1 / 10000"
    by (simp_all add: default_op_def)
  have i: "vert_index rail_mesh = int" "edge_index rail_mesh = int"
    by (simp_all add: rail_mesh_def)
  show ?thesis
    by (simp add: get_offset_infos_def solve_loops_def d seam_edges plain_loops vec_consts
        plain_directions i Let_def)
qed

lemma rail_mesh_index_valid: "index_valid rail_mesh"
  by (simp add: index_valid_def rail_mesh_def upt_rec)

text \<open>The lemma on the rail mesh, where the full computation leaves \<open>Z_UP\<close> as it was.\<close>

lemma cached_update_replays_filling_run_example:
  "index_valid rail_mesh
   \<and> get_offset_infos default_op rail_mesh (mirror_ob False False False) Z_UP
     = Inr (Computed [([1, 0], [(Vector 0 1 0, Z_UP), (Vector 0 1 0, Z_UP)])] [0],
            default_op\<lparr>op_cache_offset_infos :=
                         Some [([1, 0], [(Vector 0 1 0, Z_UP), (Vector 0 1 0, Z_UP)])],
                       op_cache_edges_orig_ixs := Some [0]\<rparr>,
            [], Z_UP)
   \<and> do_offset_and_free flag_host
       (default_op\<lparr>op_cache_offset_infos :=
                     Some [([1, 0], [(Vector 0 1 0, Z_UP), (Vector 0 1 0, Z_UP)])],
                   op_cache_edges_orig_ixs := Some [0],
                   op_width := 1, op_depth := 0, op_caches_valid := True\<rparr>)
       rail_mesh None None
     = do_offset_and_free flag_host
       (default_op\<lparr>op_cache_offset_infos :=
                     Some [([1, 0], [(Vector 0 1 0, Z_UP), (Vector 0 1 0, Z_UP)])],
                   op_cache_edges_orig_ixs := Some [0],
                   op_width := 1, op_depth := 0\<rparr>)
       rail_mesh (Some [([1, 0], [(Vector 0 1 0, Z_UP), (Vector 0 1 0, Z_UP)])]) (Some [0])"
  using cached_update_replays_filling_run [OF rail_mesh_index_valid plain_infos,
      where w = 1 and d = 0 and h = flag_host]
    rail_mesh_index_valid plain_infos
  by blast

subsection \<open>The cache after a change of \<open>Z_UP\<close>\<close>

text \<open>
  The stages of \<open>get_offset_infos\<close> on the twin mesh, first with \<open>Z_UP\<close> = (0, 0, 1) and
  then with \<open>Z_UP\<close> = (0, 0, -1), the value the first computation leaves.
\<close>

lemma twin_edges: "collect_edges twin_mesh = Some [0, 1]"
  by (simp add: collect_edges_def twin_mesh_def set_add_def)

lemma twin_loops:
  "collect_loops twin_mesh [0, Suc 0]
     = Inr (Some [[Vert 1, Edge 0, Vert 0], [Vert 3, Edge 1, Vert 2]])"
  by (simp add: collect_loops_def twin_mesh_def grow.simps other_vert_def)

lemma twin_tangent:
  "calc_tangent (Vector 0 0 (- 1)) (Vector (- 1) 0 0) (Vector 1 0 0) (1 / 10000)
     = Inr (Vector 0 (- 1) 0)"
  by (simp add: calc_tangent_def calc_tangent_2d_def project_def normalized_def
      vec_length_def vec_consts Let_def get_corner_type_def angle_def saacos_ends
      M_PI_F_straight)

lemma twin_factors:
  "get_factor max (Vector 0 (- 1) 0) (Vector (- 1) 0 0) (Vector 1 0 0) = Inr 1"
  "get_factor max (Vector 0 0 (- 1)) (Vector (- 1) 0 0) (Vector 1 0 0) = Inr 1"
  by (simp_all add: get_factor_def angle_def saacos_ends vec_consts Let_def)

lemma twin_choose:
  "choose_rail twin_mesh None False False (1 / 10000) es v True
     vt up (Vector (- 1) 0 0) (Vector 1 0 0) None None = Inr (None, up)"
  "choose_rail twin_mesh None False False (1 / 10000) es v True
     vt up (Vector (- 1) 0 0) (Vector 1 0 0)
     (Some (Vector 0 0 (- 1))) (Some (Vector 0 0 (- 1))) = Inr (None, up)"
  by (simp_all add: choose_rail_def get_cross_rail_def angle_def saacos_ends)

lemma twin_normals:
  "get_normals twin_mesh n 0 0 None = Inr (n, None, None)"
  "get_normals twin_mesh n 0 0 (Some [Some 0])
     = Inr (Vector 0 0 (- 1), Some (Vector 0 0 (- 1)), Some (Vector 0 0 (- 1)))"
  by (simp_all add: get_normals_def py_index_def twin_mesh_def normalized_def vec_length_def
      vec_consts Let_def)

lemma twin_direction_up:
  "i < 2 \<Longrightarrow> direction_at twin_mesh None False False (1 / 10000) es
      [a, b] [Vector (- 1) 0 0] True (Vector 0 0 1) None i
     = Inr (Some (Vector 0 1 0, Vector 0 0 1))"
  apply (cases i)
  apply (simp_all add: direction_at_def plain_adj_ix py_index_def twin_normals plain_tangent
      twin_choose apply_rail_def plain_factors vec_consts Let_def)
  done

lemma twin_direction_down:
  "i < 2 \<Longrightarrow> direction_at twin_mesh None False False (1 / 10000) es
      [a, b] [Vector (- 1) 0 0] True (Vector 0 0 (- 1)) None i
     = Inr (Some (Vector 0 (- 1) 0, Vector 0 0 (- 1)))"
  apply (cases i)
  apply (simp_all add: direction_at_def plain_adj_ix py_index_def twin_normals twin_tangent
      twin_choose apply_rail_def twin_factors vec_consts Let_def)
  done

lemma twin_direction_face:
  "i < 2 \<Longrightarrow> direction_at twin_mesh None False False (1 / 10000) es
      [a, b] [Vector (- 1) 0 0] True n (Some [Some 0]) i
     = Inr (Some (Vector 0 (- 1) 0, Vector 0 0 (- 1)))"
  apply (cases i)
  apply (simp_all add: direction_at_def plain_adj_ix py_index_def twin_normals twin_tangent
      twin_choose apply_rail_def twin_factors vec_consts Let_def)
  done

lemma twin_normal:
  "calc_normal_from_verts twin_mesh [Suc 0, 0] n = Inr (n, True)"
  "calc_normal_from_verts twin_mesh [3, 2] n = Inr (n, True)"
  by (simp_all add: calc_normal_from_verts_def twin_mesh_def newell_def normalized_def
      vec_consts)

lemma twin_vec_edges:
  "other_vert twin_mesh 0 (Suc 0) = Some 0"
  "other_vert twin_mesh (Suc 0) 3 = Some 2"
  "normalized (vsub (vert_co twin_mesh 0) (vert_co twin_mesh (Suc 0))) = Vector (- 1) 0 0"
  "normalized (vsub (vert_co twin_mesh 2) (vert_co twin_mesh 3)) = Vector (- 1) 0 0"
  by (simp_all add: twin_mesh_def other_vert_def normalized_def vec_length_def)

lemma twin_adj_faces:
  "get_adj_faces twin_mesh [0] = None"
  "get_adj_faces twin_mesh [Suc 0] = Some [Some 0]"
  by (simp_all add: get_adj_faces_def twin_mesh_def vec_consts)

lemma twin_reorder:
  "reorder_loop twin_mesh [3, 2] [Suc 0] n [Some 0]
     = Inr ([3, 2], [Suc 0], if dot n (Vector 0 0 (- 1)) < 0 then smul (- 1) n else n,
            [Some 0])"
  by (simp add: reorder_loop_def py_index_def twin_mesh_def Let_def)

lemma upward_signs:
  "\<not> dot (Vector 0 0 1) (normalized (Vector 1 1 1)) < 0"
  "\<not> dot (Vector 0 0 (- 1)) (normalized (Vector 1 1 (- 1))) < 0"
  by (simp_all add: normalized_def vec_length_def)

lemma twin_directions_first:
  "get_directions twin_mesh [Vert (Suc 0), Edge 0, Vert 0] (normalized (Vector 1 1 1))
     (Vector 0 0 1) None True False False (1 / 10000)
   = Inr ([1, 0], [(Vector 0 1 0, Vector 0 0 1), (Vector 0 1 0, Vector 0 0 1)], Vector 0 0 1)"
  "get_directions twin_mesh [Vert 3, Edge (Suc 0), Vert 2] (normalized (Vector 1 1 1))
     (Vector 0 0 1) None True False False (1 / 10000)
   = Inr ([3, 2], [(Vector 0 (- 1) 0, Vector 0 0 (- 1)), (Vector 0 (- 1) 0, Vector 0 0 (- 1))],
          Vector 0 0 (- 1))"
  apply (simp_all add: get_directions_def orient_loop_def twin_normal upward_signs
      twin_adj_faces twin_reorder Let_def)
  apply (simp_all add: loop_directions_def twin_vec_edges twin_direction_up
      twin_direction_face upt_rec)
  done

lemma twin_directions_second:
  "get_directions twin_mesh [Vert (Suc 0), Edge 0, Vert 0] (normalized (Vector 1 1 (- 1)))
     (Vector 0 0 (- 1)) None True False False (1 / 10000)
   = Inr ([1, 0], [(Vector 0 (- 1) 0, Vector 0 0 (- 1)), (Vector 0 (- 1) 0, Vector 0 0 (- 1))],
          Vector 0 0 (- 1))"
  "get_directions twin_mesh [Vert 3, Edge (Suc 0), Vert 2] (normalized (Vector 1 1 (- 1)))
     (Vector 0 0 (- 1)) None True False False (1 / 10000)
   = Inr ([3, 2], [(Vector 0 (- 1) 0, Vector 0 0 (- 1)), (Vector 0 (- 1) 0, Vector 0 0 (- 1))],
          Vector 0 0 (- 1))"
  apply (simp_all add: get_directions_def orient_loop_def twin_normal upward_signs
      twin_adj_faces twin_reorder Let_def)
  apply (simp_all add: loop_directions_def twin_vec_edges twin_direction_down
      twin_direction_face upt_rec)
  done

lemma twin_op_simps:
  "\<not> op_caches_valid twin_op" "\<not> op_mirror_modifier twin_op"
  "op_follow_face twin_op" "\<not> op_edge_rail twin_op"
  "\<not> op_edge_rail_only_end twin_op" "op_threshold twin_op = 1 / 10000"
  by (simp_all add: twin_op_def default_op_def)

lemma twin_ixs: "vert_index twin_mesh = int" "edge_index twin_mesh = int"
  by (simp_all add: twin_mesh_def)

lemma twin_infos_first:
  "get_offset_infos twin_op twin_mesh (mirror_ob False False False) Z_UP
     = Inr (Computed
              [([1, 0], [(Vector 0 1 0, Vector 0 0 1), (Vector 0 1 0, Vector 0 0 1)]),
               ([3, 2], [(Vector 0 (- 1) 0, Vector 0 0 (- 1)),
                         (Vector 0 (- 1) 0, Vector 0 0 (- 1))])]
              [0, 1],
            twin_filled, [], Vector 0 0 (- 1))"
  by (simp add: get_offset_infos_def solve_loops_def twin_op_simps twin_edges twin_loops
      vec_consts twin_directions_first twin_ixs twin_cache_def twin_filled_def Let_def)

lemma twin_infos_second:
  "get_offset_infos (twin_filled\<lparr>op_width := 2\<rparr>)
       twin_mesh (mirror_ob False False False) (Vector 0 0 (- 1))
     = Inr (Computed
              [([1, 0], [(Vector 0 (- 1) 0, Vector 0 0 (- 1)),
                         (Vector 0 (- 1) 0, Vector 0 0 (- 1))]),
               ([3, 2], [(Vector 0 (- 1) 0, Vector 0 0 (- 1)),
                         (Vector 0 (- 1) 0, Vector 0 0 (- 1))])]
              [0, 1],
            twin_op\<lparr>op_cache_offset_infos :=
                      Some [([1, 0], [(Vector 0 (- 1) 0, Vector 0 0 (- 1)),
                                      (Vector 0 (- 1) 0, Vector 0 0 (- 1))]),
                            ([3, 2], [(Vector 0 (- 1) 0, Vector 0 0 (- 1)),
                                      (Vector 0 (- 1) 0, Vector 0 0 (- 1))])],
                    op_cache_edges_orig_ixs := Some [0, 1], op_width := 2\<rparr>,
            [], Vector 0 0 (- 1))"
  by (simp add: get_offset_infos_def solve_loops_def twin_op_simps twin_edges twin_loops
      vec_consts twin_directions_second twin_ixs twin_cache_def twin_filled_def Let_def)

lemma twin_cached_update:
  "coords (execute flag_host (twin_filled\<lparr>op_width := 2, op_caches_valid := True\<rparr>)
       (mirror_ob False False False) twin_mesh (Vector 0 0 (- 1)))
     = Inr (FINISHED, [Vector 0 2 0, Vector 1 2 0, Vector 0 3 0, Vector 1 3 0, Vector 0 6 0])"
  by (simp add: execute_def get_offset_infos_def do_offset_and_free_def py_index_def
      twin_cache_def twin_filled_def twin_op_def default_op_def move_verts_def clean_def
      flag_host_def coords_def twin_mesh_def Let_def)

lemma twin_full_update:
  "coords (execute flag_host (twin_filled\<lparr>op_width := 2\<rparr>)
       (mirror_ob False False False) twin_mesh (Vector 0 0 (- 1)))
     = Inr (FINISHED, [Vector 0 (- 2) 0, Vector 1 (- 2) 0, Vector 0 3 0, Vector 1 3 0,
                       Vector 0 6 0])"
  unfolding execute_def twin_infos_second
  by (simp add: do_offset_and_free_def twin_op_def default_op_def move_verts_def clean_def
      flag_host_def coords_def twin_mesh_def Let_def)

text \<open>
  C8 (the code departs from the claim). On the twin mesh with \<open>follow_face\<close> enabled the
  first full computation of a session takes \<open>Z_UP\<close> itself as the normal of both loops
  (\<open>calc_normal_from_verts\<close> returns its \<open>fallback\<close> without a copy). With the faceless
  edge popped first, it solves the faceless loop with up = (0, 0, 1), and then
  \<open>reorder_loop\<close> multiplies that object by -1 for the loop beside the face: the cache is
  filled and \<open>Z_UP\<close> is left as (0, 0, -1). At the next
  update, with width 2, the cached path moves vertices 0 and 1 to y = 2. The full
  non-cached computation at that same update, in the state the session is in, solves the
  faceless loop with up = (0, 0, -1) and moves them to y = -2.
\<close>

theorem cached_update_differs_from_full:
  "get_offset_infos twin_op twin_mesh (mirror_ob False False False) Z_UP
     = Inr (Computed
              [([1, 0], [(Vector 0 1 0, Vector 0 0 1), (Vector 0 1 0, Vector 0 0 1)]),
               ([3, 2], [(Vector 0 (- 1) 0, Vector 0 0 (- 1)),
                         (Vector 0 (- 1) 0, Vector 0 0 (- 1))])]
              [0, 1],
            twin_filled, [], Vector 0 0 (- 1))
   \<and> coords (execute flag_host (twin_filled\<lparr>op_width := 2, op_caches_valid := True\<rparr>)
         (mirror_ob False False False) twin_mesh (Vector 0 0 (- 1)))
     = Inr (FINISHED, [Vector 0 2 0, Vector 1 2 0, Vector 0 3 0, Vector 1 3 0, Vector 0 6 0])
   \<and> coords (execute flag_host (twin_filled\<lparr>op_width := 2\<rparr>)
         (mirror_ob False False False) twin_mesh (Vector 0 0 (- 1)))
     = Inr (FINISHED, [Vector 0 (- 2) 0, Vector 1 (- 2) 0, Vector 0 3 0, Vector 1 3 0,
                       Vector 0 6 0])"
  using twin_infos_first twin_cached_update twin_full_update by simp

end
